theory Spec2Isabelle
  imports Main
begin

section \<open>Data model (lib/types.ts)\<close>

text \<open>
  A JavaScript \<open>Date\<close>, read in local time: calendar year, month, day and the
  milliseconds elapsed since local midnight. \<open>setHours(0, 0, 0, 0)\<close> clears the last
  component; \<open>getTime()\<close> of two dates compares them lexicographically.
\<close>

record jsDate =
  fullYear :: int
  month :: nat
  date :: nat
  msOfDay :: nat

datatype ResearchSessionStatus =
    CREATED
  | AWAITING_REFINEMENTS
  | REFINEMENTS_IN_PROGRESS
  | REFINEMENTS_COMPLETE
  | RUNNING_RESEARCH
  | COMPLETED
  | FAILED

record RefinementData =
  id_rd :: string
  question_rd :: string
  answer_rd :: "string option"
  questionIndex_rd :: int
  answeredAt_rd :: "jsDate option"

record ResearchSessionData =
  id_sd :: string
  userId_sd :: string
  initialPrompt_sd :: string
  refinedPrompt_sd :: "string option"
  status_sd :: ResearchSessionStatus
  openaiResult_sd :: "string option"
  geminiResult_sd :: "string option"
  pdfUrl_sd :: "string option"
  pdfGeneratedAt_sd :: "jsDate option"
  emailSentAt_sd :: "jsDate option"
  errorMessage_sd :: "string option"
  createdAt_sd :: jsDate
  updatedAt_sd :: jsDate
  refinements_sd :: "RefinementData list"

record StateTransition =
  from_t :: ResearchSessionStatus
  to_t :: ResearchSessionStatus
  condition :: "ResearchSessionData \<Rightarrow> bool"

text \<open>
  JavaScript truthiness of an optional string: \<open>undefined\<close>, \<open>null\<close> and the empty
  string are falsy, every other string is truthy.
\<close>

fun truthy :: "string option \<Rightarrow> bool" where
  "truthy None = False"
| "truthy (Some s) = (s \<noteq> [])"

section \<open>Session state machine (ResearchSessionStateMachine)\<close>

definition transitions :: "StateTransition list" where
  "transitions =
    [ \<lparr>from_t = CREATED, to_t = AWAITING_REFINEMENTS,
        condition = (\<lambda>session. True)\<rparr>,
      \<lparr>from_t = AWAITING_REFINEMENTS, to_t = REFINEMENTS_IN_PROGRESS,
        condition = (\<lambda>session. length (refinements_sd session) > 0)\<rparr>,
      \<lparr>from_t = REFINEMENTS_IN_PROGRESS, to_t = REFINEMENTS_COMPLETE,
        condition = (\<lambda>session.
          let unanswered = filter (\<lambda>r. \<not> truthy (answer_rd r)) (refinements_sd session)
          in length unanswered = 0 \<and> length (refinements_sd session) > 0)\<rparr>,
      \<lparr>from_t = REFINEMENTS_COMPLETE, to_t = RUNNING_RESEARCH,
        condition = (\<lambda>session. truthy (refinedPrompt_sd session))\<rparr>,
      \<lparr>from_t = RUNNING_RESEARCH, to_t = COMPLETED,
        condition = (\<lambda>session.
          truthy (openaiResult_sd session) \<and> truthy (geminiResult_sd session))\<rparr>,
      \<lparr>from_t = CREATED, to_t = FAILED, condition = (\<lambda>session. False)\<rparr>,
      \<lparr>from_t = AWAITING_REFINEMENTS, to_t = FAILED, condition = (\<lambda>session. False)\<rparr>,
      \<lparr>from_t = REFINEMENTS_IN_PROGRESS, to_t = FAILED, condition = (\<lambda>session. False)\<rparr>,
      \<lparr>from_t = REFINEMENTS_COMPLETE, to_t = FAILED, condition = (\<lambda>session. False)\<rparr>,
      \<lparr>from_t = RUNNING_RESEARCH, to_t = FAILED, condition = (\<lambda>session. False)\<rparr> ]"

definition canTransition ::
  "ResearchSessionStatus \<Rightarrow> ResearchSessionStatus \<Rightarrow> ResearchSessionData \<Rightarrow> bool" where
  "canTransition from to session =
    (if from = to then True
     else if to = FAILED then True
     else (case find (\<lambda>t. from_t t = from \<and> to_t t = to) transitions of
             None \<Rightarrow> False
           | Some transition \<Rightarrow> condition transition session))"

text \<open>
  \<open>[...new Set(xs)]\<close>: the elements of \<open>xs\<close> in the order of their first occurrence.
  The first argument is the set built so far.
\<close>

fun new_Set :: "'a list \<Rightarrow> 'a list \<Rightarrow> 'a list" where
  "new_Set seen [] = seen"
| "new_Set seen (x # xs) =
     (if x \<in> set seen then new_Set seen xs else new_Set (seen @ [x]) xs)"

definition getNextStates ::
  "ResearchSessionStatus \<Rightarrow> ResearchSessionData \<Rightarrow> ResearchSessionStatus list" where
  "getNextStates currentState session =
    (let nextStates0 = [currentState];
         nextStates1 =
           foldl (\<lambda>nextStates transition.
                    if condition transition session then nextStates @ [to_t transition]
                    else nextStates)
             nextStates0 (filter (\<lambda>t. from_t t = currentState) transitions);
         nextStates2 =
           (if currentState \<noteq> FAILED then nextStates1 @ [FAILED] else nextStates1)
     in new_Set [] nextStates2)"

definition getNextState :: "ResearchSessionData \<Rightarrow> ResearchSessionStatus option" where
  "getNextState session =
    (let currentState = status_sd session;
         nextStates = getNextStates currentState session;
         progressionStates = filter (\<lambda>s. s \<noteq> currentState \<and> s \<noteq> FAILED) nextStates
     in if length progressionStates = 0 then None else Some (progressionStates ! 0))"

section \<open>Persistent store and effects\<close>

text \<open>A thrown JavaScript \<open>Error\<close>, with its message.\<close>

datatype error = Error (message: string)

record ApiUsage =
  userId_au :: string
  openaiRequestsToday :: int
  openaiRequestsMonth :: int
  geminiRequestsToday :: int
  geminiRequestsMonth :: int
  lastResetDate :: jsDate

record User =
  id_u :: string
  email_u :: "string option"

record ResearchSession =
  id_rs :: string
  userId_rs :: string
  title_rs :: string
  initialPrompt_rs :: string
  refinedPrompt_rs :: "string option"
  status_rs :: ResearchSessionStatus
  openaiResult_rs :: "string option"
  geminiResult_rs :: "string option"
  pdfUrl_rs :: "string option"
  pdfGeneratedAt_rs :: "jsDate option"
  emailSentAt_rs :: "jsDate option"
  errorMessage_rs :: "string option"
  createdAt_rs :: jsDate

record Refinement =
  id_rf :: string
  researchSessionId_rf :: string
  question_rf :: string
  answer_rf :: "string option"
  questionIndex_rf :: int
  answeredAt_rf :: "jsDate option"

text \<open>
  The database behind the Prisma client: one list of rows per table, in insertion order.
  \<open>faults\<close> is the behaviour of the storage engine on the coming operations: each
  storage operation consumes the head, \<open>Some e\<close> makes it raise \<open>e\<close> without effect,
  \<open>None\<close> (or an exhausted list) lets it run. \<open>created\<close> counts the rows whose id the
  client has generated. \<open>journal\<close> is a ghost field: every version of a
  \<open>researchSession\<close> row that was written, in the order of the writes.
\<close>

record db =
  apiUsage :: "ApiUsage list"
  researchSession :: "ResearchSession list"
  refinement :: "Refinement list"
  user :: "User list"
  faults :: "error option list"
  created :: nat
  journal :: "ResearchSession list"

text \<open>
  An asynchronous computation over the database: it ends in a thrown error (\<open>Inl\<close>) or
  a value (\<open>Inr\<close>), and the database keeps every write made before a throw.
\<close>

type_synonym 'a io = "db \<Rightarrow> (error + 'a) \<times> db"

definition ret :: "'a \<Rightarrow> 'a io" where
  "ret x = (\<lambda>s. (Inr x, s))"

definition throw :: "error \<Rightarrow> 'a io" where
  "throw e = (\<lambda>s. (Inl e, s))"

definition andThen :: "'a io \<Rightarrow> ('a \<Rightarrow> 'b io) \<Rightarrow> 'b io" where
  "andThen m f = (\<lambda>s. case m s of (Inl e, s') \<Rightarrow> (Inl e, s') | (Inr x, s') \<Rightarrow> f x s')"

definition try_catch :: "'a io \<Rightarrow> (error \<Rightarrow> 'a io) \<Rightarrow> 'a io" where
  "try_catch m h = (\<lambda>s. case m s of (Inl e, s') \<Rightarrow> h e s' | (Inr x, s') \<Rightarrow> (Inr x, s'))"

text \<open>The rows of a table after an update: \<open>data\<close> is applied to the rows that match.\<close>

definition updateWhere :: "('r \<Rightarrow> bool) \<Rightarrow> ('r \<Rightarrow> 'r) \<Rightarrow> 'r list \<Rightarrow> 'r list" where
  "updateWhere matches data rows = map (\<lambda>r. if matches r then data r else r) rows"

text \<open>The outcome of a call to an external service, which does not touch the database.\<close>

definition external :: "error + 'a \<Rightarrow> 'a io" where
  "external r = (\<lambda>s. (r, s))"

definition storage :: "'a io \<Rightarrow> 'a io" where
  "storage op = (\<lambda>s. case faults s of
       [] \<Rightarrow> op s
     | None # fs \<Rightarrow> op (s\<lparr>faults := fs\<rparr>)
     | Some e # fs \<Rightarrow> (Inl e, s\<lparr>faults := fs\<rparr>))"

text \<open>
  The limits of \<open>API_LIMITS\<close> are read from the process environment when the module is
  loaded; they are parameters here.
\<close>

record API_LIMITS =
  OPENAI_DAILY_LIMIT :: int
  GEMINI_DAILY_LIMIT :: int
  OPENAI_MONTHLY_LIMIT :: int
  GEMINI_MONTHLY_LIMIT :: int
  OPENAI_GLOBAL_DAILY_LIMIT :: int
  GEMINI_GLOBAL_DAILY_LIMIT :: int

record RefinementQuestion =
  question_q :: string
  index_q :: int

record DeepResearchResponse =
  refinementQuestions :: "RefinementQuestion list option"
  result :: "string option"
  requiresRefinement :: bool

text \<open>
  What a call takes from outside the orchestrator: the clock (\<open>new Date()\<close>), the
  limits, the id generator of the Prisma client, the two research providers, the PDF
  generator and the mail service. \<open>lastResetDate_default\<close> is the value a new
  \<open>ApiUsage\<close> row gets for \<open>lastResetDate\<close>; the Prisma schema that fixes it is not
  part of the sources, so it is a parameter.
\<close>

record env =
  now :: jsDate
  API_LIMITS :: API_LIMITS
  lastResetDate_default :: jsDate
  cuid :: "nat \<Rightarrow> string"
  startDeepResearch :: "string \<Rightarrow> error + DeepResearchResponse"
  research :: "string \<Rightarrow> error + string"
  generatePDFBuffer ::
    "string \<Rightarrow> string \<Rightarrow> string option \<Rightarrow> string option \<Rightarrow> string option \<Rightarrow> jsDate
      \<Rightarrow> error + string"
  sendPDF :: "string \<Rightarrow> string \<Rightarrow> string \<Rightarrow> string \<Rightarrow> error + unit"

subsection \<open>The \<open>apiUsage\<close> table\<close>

text \<open>
  Modelled from the spec: the column defaults of the \<open>ApiUsage\<close> model (the Prisma
  schema is not part of the sources). The spec has all counters zero on creation.
\<close>

definition ApiUsage_defaults :: "env \<Rightarrow> string \<Rightarrow> ApiUsage" where
  "ApiUsage_defaults env userId =
     \<lparr>userId_au = userId, openaiRequestsToday = 0, openaiRequestsMonth = 0,
      geminiRequestsToday = 0, geminiRequestsMonth = 0,
      lastResetDate = lastResetDate_default env\<rparr>"

definition prisma_apiUsage_findUnique :: "string \<Rightarrow> ApiUsage option io" where
  "prisma_apiUsage_findUnique userId =
     storage (\<lambda>s. (Inr (find (\<lambda>u. userId_au u = userId) (apiUsage s)), s))"

text \<open>\<open>create\<close>: \<open>userId\<close> is unique, a second row for the same user is refused.\<close>

definition prisma_apiUsage_create :: "ApiUsage \<Rightarrow> ApiUsage io" where
  "prisma_apiUsage_create row =
     storage (\<lambda>s.
       case find (\<lambda>u. userId_au u = userId_au row) (apiUsage s) of
         Some u \<Rightarrow> (Inl (Error ''Unique constraint failed on the fields: (userId)''), s)
       | None \<Rightarrow> (Inr row, s\<lparr>apiUsage := apiUsage s @ [row]\<rparr>))"

text \<open>\<open>update\<close> returns the updated row, and raises when the user has no row.\<close>

definition prisma_apiUsage_update :: "string \<Rightarrow> (ApiUsage \<Rightarrow> ApiUsage) \<Rightarrow> ApiUsage io" where
  "prisma_apiUsage_update userId data =
     storage (\<lambda>s.
       case find (\<lambda>u. userId_au u = userId) (apiUsage s) of
         None \<Rightarrow> (Inl (Error ''Record to update not found.''), s)
       | Some u \<Rightarrow>
           (Inr (data u),
            s\<lparr>apiUsage := updateWhere (\<lambda>u. userId_au u = userId) data (apiUsage s)\<rparr>))"

definition prisma_apiUsage_upsert ::
  "string \<Rightarrow> ApiUsage \<Rightarrow> (ApiUsage \<Rightarrow> ApiUsage) \<Rightarrow> ApiUsage io" where
  "prisma_apiUsage_upsert userId create upd =
     storage (\<lambda>s.
       case find (\<lambda>u. userId_au u = userId) (apiUsage s) of
         None \<Rightarrow> (Inr create, s\<lparr>apiUsage := apiUsage s @ [create]\<rparr>)
       | Some u \<Rightarrow>
           (Inr (upd u),
            s\<lparr>apiUsage := updateWhere (\<lambda>u. userId_au u = userId) upd (apiUsage s)\<rparr>))"

text \<open>\<open>aggregate({_sum: ...})\<close>: the sum of a column over all rows, \<open>null\<close> on an empty table.\<close>

definition prisma_apiUsage_aggregate_sum :: "(ApiUsage \<Rightarrow> int) \<Rightarrow> int option io" where
  "prisma_apiUsage_aggregate_sum column =
     storage (\<lambda>s.
       (Inr (if apiUsage s = [] then None else Some (sum_list (map column (apiUsage s)))), s))"

section \<open>Usage guard (ApiUsageGuard)\<close>

record canMakeResult =
  allowed :: bool
  reason :: "string option"

definition setHours0 :: "jsDate \<Rightarrow> jsDate" where
  "setHours0 d = d\<lparr>msOfDay := 0\<rparr>"

text \<open>\<open>a.getTime() > b.getTime()\<close>\<close>

definition getTime_gt :: "jsDate \<Rightarrow> jsDate \<Rightarrow> bool" where
  "getTime_gt a b =
     (fullYear a > fullYear b
      \<or> (fullYear a = fullYear b
          \<and> (month a > month b
              \<or> (month a = month b
                  \<and> (date a > date b \<or> (date a = date b \<and> msOfDay a > msOfDay b))))))"

text \<open>The decimal digits of a number, as a template literal prints an integer.\<close>

function digits :: "nat \<Rightarrow> string" where
  "digits n =
     (if n < 10 then [''0123456789'' ! n]
      else digits (n div 10) @ [''0123456789'' ! (n mod 10)])"
  by pat_completeness auto
termination
  by (relation "measure (\<lambda>n. n)") auto

definition String_int :: "int \<Rightarrow> string" where
  "String_int i = (if i < 0 then CHR ''-'' # digits (nat (- i)) else digits (nat i))"

definition canMakeOpenAIRequest_try :: "env \<Rightarrow> string \<Rightarrow> canMakeResult io" where
  "canMakeOpenAIRequest_try env userId =
     andThen (prisma_apiUsage_findUnique userId) (\<lambda>found.
     andThen (case found of
                None \<Rightarrow> prisma_apiUsage_create (ApiUsage_defaults env userId)
              | Some u \<Rightarrow> ret u) (\<lambda>usage.
     let today = setHours0 (now env);
         lastReset = setHours0 (lastResetDate usage)
     in
     andThen (if getTime_gt today lastReset
              then prisma_apiUsage_update userId
                     (\<lambda>u. u\<lparr>openaiRequestsToday := 0, geminiRequestsToday := 0,
                            lastResetDate := today\<rparr>)
              else ret usage) (\<lambda>usage.
     let currentMonth = month today;
         lastResetMonth = month lastReset;
         currentYear = fullYear today;
         lastResetYear = fullYear lastReset
     in
     andThen (if currentMonth \<noteq> lastResetMonth \<or> currentYear \<noteq> lastResetYear
              then prisma_apiUsage_update userId
                     (\<lambda>u. u\<lparr>openaiRequestsMonth := 0, geminiRequestsMonth := 0,
                            lastResetDate := today\<rparr>)
              else ret usage) (\<lambda>usage.
     if openaiRequestsToday usage \<ge> OPENAI_DAILY_LIMIT (API_LIMITS env) then
       ret \<lparr>allowed = False,
            reason = Some (''Daily OpenAI limit reached (''
                           @ String_int (OPENAI_DAILY_LIMIT (API_LIMITS env))
                           @ '' requests). Please try again tomorrow.'')\<rparr>
     else if openaiRequestsMonth usage \<ge> OPENAI_MONTHLY_LIMIT (API_LIMITS env) then
       ret \<lparr>allowed = False,
            reason = Some (''Monthly OpenAI limit reached (''
                           @ String_int (OPENAI_MONTHLY_LIMIT (API_LIMITS env))
                           @ '' requests). Limit resets at the start of next month.'')\<rparr>
     else
       andThen (prisma_apiUsage_aggregate_sum openaiRequestsToday) (\<lambda>globalUsageToday.
       let totalGlobalToday = (case globalUsageToday of None \<Rightarrow> 0 | Some n \<Rightarrow> n) in
       if totalGlobalToday \<ge> OPENAI_GLOBAL_DAILY_LIMIT (API_LIMITS env) then
         ret \<lparr>allowed = False,
              reason = Some ''Service temporarily unavailable due to high demand. Please try again later.''\<rparr>
       else ret \<lparr>allowed = True, reason = None\<rparr>)))))"

definition canMakeOpenAIRequest :: "env \<Rightarrow> string \<Rightarrow> canMakeResult io" where
  "canMakeOpenAIRequest env userId =
     try_catch (canMakeOpenAIRequest_try env userId)
       (\<lambda>error. ret \<lparr>allowed = True, reason = None\<rparr>)"

definition canMakeGeminiRequest_try :: "env \<Rightarrow> string \<Rightarrow> canMakeResult io" where
  "canMakeGeminiRequest_try env userId =
     andThen (prisma_apiUsage_findUnique userId) (\<lambda>found.
     andThen (case found of
                None \<Rightarrow> prisma_apiUsage_create (ApiUsage_defaults env userId)
              | Some u \<Rightarrow> ret u) (\<lambda>usage.
     let today = setHours0 (now env);
         lastReset = setHours0 (lastResetDate usage)
     in
     andThen (if getTime_gt today lastReset
              then prisma_apiUsage_update userId
                     (\<lambda>u. u\<lparr>openaiRequestsToday := 0, geminiRequestsToday := 0,
                            lastResetDate := today\<rparr>)
              else ret usage) (\<lambda>usage.
     let currentMonth = month today;
         lastResetMonth = month lastReset;
         currentYear = fullYear today;
         lastResetYear = fullYear lastReset
     in
     andThen (if currentMonth \<noteq> lastResetMonth \<or> currentYear \<noteq> lastResetYear
              then prisma_apiUsage_update userId
                     (\<lambda>u. u\<lparr>openaiRequestsMonth := 0, geminiRequestsMonth := 0,
                            lastResetDate := today\<rparr>)
              else ret usage) (\<lambda>usage.
     if geminiRequestsToday usage \<ge> GEMINI_DAILY_LIMIT (API_LIMITS env) then
       ret \<lparr>allowed = False,
            reason = Some (''Daily Gemini limit reached (''
                           @ String_int (GEMINI_DAILY_LIMIT (API_LIMITS env))
                           @ '' requests). Please try again tomorrow.'')\<rparr>
     else if geminiRequestsMonth usage \<ge> GEMINI_MONTHLY_LIMIT (API_LIMITS env) then
       ret \<lparr>allowed = False,
            reason = Some (''Monthly Gemini limit reached (''
                           @ String_int (GEMINI_MONTHLY_LIMIT (API_LIMITS env))
                           @ '' requests). Limit resets at the start of next month.'')\<rparr>
     else
       andThen (prisma_apiUsage_aggregate_sum geminiRequestsToday) (\<lambda>globalUsageToday.
       let totalGlobalToday = (case globalUsageToday of None \<Rightarrow> 0 | Some n \<Rightarrow> n) in
       if totalGlobalToday \<ge> GEMINI_GLOBAL_DAILY_LIMIT (API_LIMITS env) then
         ret \<lparr>allowed = False,
              reason = Some ''Service temporarily unavailable due to high demand. Please try again later.''\<rparr>
       else ret \<lparr>allowed = True, reason = None\<rparr>)))))"

definition canMakeGeminiRequest :: "env \<Rightarrow> string \<Rightarrow> canMakeResult io" where
  "canMakeGeminiRequest env userId =
     try_catch (canMakeGeminiRequest_try env userId)
       (\<lambda>error. ret \<lparr>allowed = True, reason = None\<rparr>)"

definition recordOpenAIRequest_try :: "env \<Rightarrow> string \<Rightarrow> unit io" where
  "recordOpenAIRequest_try env userId =
     andThen (prisma_apiUsage_upsert userId
                ((ApiUsage_defaults env userId)
                   \<lparr>openaiRequestsToday := 1, openaiRequestsMonth := 1\<rparr>)
                (\<lambda>u. u\<lparr>openaiRequestsToday := openaiRequestsToday u + 1,
                       openaiRequestsMonth := openaiRequestsMonth u + 1\<rparr>))
       (\<lambda>row. ret ())"

definition recordOpenAIRequest :: "env \<Rightarrow> string \<Rightarrow> unit io" where
  "recordOpenAIRequest env userId =
     try_catch (recordOpenAIRequest_try env userId) (\<lambda>error. ret ())"

definition recordGeminiRequest_try :: "env \<Rightarrow> string \<Rightarrow> unit io" where
  "recordGeminiRequest_try env userId =
     andThen (prisma_apiUsage_upsert userId
                ((ApiUsage_defaults env userId)
                   \<lparr>geminiRequestsToday := 1, geminiRequestsMonth := 1\<rparr>)
                (\<lambda>u. u\<lparr>geminiRequestsToday := geminiRequestsToday u + 1,
                       geminiRequestsMonth := geminiRequestsMonth u + 1\<rparr>))
       (\<lambda>row. ret ())"

definition recordGeminiRequest :: "env \<Rightarrow> string \<Rightarrow> unit io" where
  "recordGeminiRequest env userId =
     try_catch (recordGeminiRequest_try env userId) (\<lambda>error. ret ())"

section \<open>Replies of the OpenAI client (lib/openai-client.ts)\<close>

text \<open>
  The objects \<open>startDeepResearch\<close> returns. The chat completion and the parsing of its
  text are outside the model; the arguments are the values the return statements read.

  \<open>RealOpenAIClient\<close>, when the text of the completion parses as JSON: the three
  properties of the parsed object, each of which may be missing. A missing
  \<open>requiresRefinement\<close> becomes \<open>false\<close> and a missing \<open>refinementQuestions\<close>
  becomes the empty array; an array that is present is kept, also when it is empty.
\<close>

definition RealOpenAIClient_parsed ::
  "bool option \<Rightarrow> RefinementQuestion list option \<Rightarrow> string option \<Rightarrow> DeepResearchResponse" where
  "RealOpenAIClient_parsed parsed_requiresRefinement parsed_refinementQuestions parsed_result =
     \<lparr>refinementQuestions =
        Some (case parsed_refinementQuestions of Some questions \<Rightarrow> questions | None \<Rightarrow> []),
      result = parsed_result,
      requiresRefinement =
        (case parsed_requiresRefinement of Some b \<Rightarrow> b | None \<Rightarrow> False)\<rparr>"

text \<open>
  \<open>RealOpenAIClient\<close>, when the text is not JSON and has several question marks:
  \<open>questions\<close> are the questions cut out of the text.
\<close>

definition RealOpenAIClient_questions :: "RefinementQuestion list \<Rightarrow> DeepResearchResponse" where
  "RealOpenAIClient_questions questions =
     \<lparr>refinementQuestions = Some questions, result = None,
      requiresRefinement = (length questions > 0)\<rparr>"

text \<open>\<open>RealOpenAIClient\<close>, otherwise: the text is the result.\<close>

definition RealOpenAIClient_content :: "string \<Rightarrow> DeepResearchResponse" where
  "RealOpenAIClient_content content =
     \<lparr>refinementQuestions = None, result = Some content, requiresRefinement = False\<rparr>"

text \<open>
  \<open>MockOpenAIClient\<close>: three fixed questions for a prompt without the marker
  \<open>[REFINED]\<close>, a report otherwise. \<open>refined\<close> is \<open>prompt.includes('[REFINED]')\<close>
  and \<open>report\<close> the text of the report.
\<close>

definition MockOpenAIClient_startDeepResearch :: "bool \<Rightarrow> string \<Rightarrow> DeepResearchResponse" where
  "MockOpenAIClient_startDeepResearch refined report =
     (if \<not> refined then
        \<lparr>refinementQuestions =
           Some [\<lparr>question_q = ''What specific aspect of this topic interests you most?'',
                  index_q = 0\<rparr>,
                 \<lparr>question_q = ''What is your target audience or use case?'', index_q = 1\<rparr>,
                 \<lparr>question_q = ''What depth of detail are you looking for?'', index_q = 2\<rparr>],
         result = None, requiresRefinement = True\<rparr>
      else
        \<lparr>refinementQuestions = None, result = Some report, requiresRefinement = False\<rparr>)"

section \<open>Research orchestrator (ResearchOrchestrator)\<close>

subsection \<open>The \<open>researchSession\<close>, \<open>refinement\<close> and \<open>user\<close> tables\<close>

text \<open>
  Modelled from the spec: the columns a new \<open>ResearchSession\<close> row gets from the
  Prisma schema, which is not part of the sources. The optional attributes are unset, the
  creation timestamp is the time of the call, the id is generated by the client.
\<close>

definition prisma_researchSession_create ::
  "env \<Rightarrow> string \<Rightarrow> string \<Rightarrow> string \<Rightarrow> ResearchSessionStatus \<Rightarrow> ResearchSession io" where
  "prisma_researchSession_create env userId title initialPrompt status =
     storage (\<lambda>s.
       let row = \<lparr>id_rs = cuid env (created s), userId_rs = userId, title_rs = title,
                  initialPrompt_rs = initialPrompt, refinedPrompt_rs = None, status_rs = status,
                  openaiResult_rs = None, geminiResult_rs = None, pdfUrl_rs = None,
                  pdfGeneratedAt_rs = None, emailSentAt_rs = None, errorMessage_rs = None,
                  createdAt_rs = now env\<rparr>
       in (Inr row,
           s\<lparr>researchSession := researchSession s @ [row], created := Suc (created s),
             journal := journal s @ [row]\<rparr>))"

text \<open>\<open>update({where: {id}, data})\<close> returns the updated row and raises when no row has the id.\<close>

definition prisma_researchSession_update ::
  "string \<Rightarrow> (ResearchSession \<Rightarrow> ResearchSession) \<Rightarrow> ResearchSession io" where
  "prisma_researchSession_update sessionId data =
     storage (\<lambda>s.
       case find (\<lambda>r. id_rs r = sessionId) (researchSession s) of
         None \<Rightarrow> (Inl (Error ''Record to update not found.''), s)
       | Some r \<Rightarrow>
           (Inr (data r),
            s\<lparr>researchSession := updateWhere (\<lambda>r. id_rs r = sessionId) data (researchSession s),
              journal := journal s @ [data r]\<rparr>))"

text \<open>The same update with \<open>include: {user: true}\<close>: the row comes with its owner.\<close>

definition prisma_researchSession_update_user ::
  "string \<Rightarrow> (ResearchSession \<Rightarrow> ResearchSession) \<Rightarrow> (ResearchSession \<times> User option) io" where
  "prisma_researchSession_update_user sessionId data =
     storage (\<lambda>s.
       case find (\<lambda>r. id_rs r = sessionId) (researchSession s) of
         None \<Rightarrow> (Inl (Error ''Record to update not found.''), s)
       | Some r \<Rightarrow>
           (Inr (data r, find (\<lambda>u. id_u u = userId_rs (data r)) (user s)),
            s\<lparr>researchSession := updateWhere (\<lambda>r. id_rs r = sessionId) data (researchSession s),
              journal := journal s @ [data r]\<rparr>))"

text \<open>\<open>findFirst({where: {id, userId}, include: {refinements: true}})\<close>\<close>

definition prisma_researchSession_findFirst ::
  "string \<Rightarrow> string \<Rightarrow> (ResearchSession \<times> Refinement list) option io" where
  "prisma_researchSession_findFirst sessionId userId =
     storage (\<lambda>s.
       (Inr (map_option
               (\<lambda>r. (r, filter (\<lambda>q. researchSessionId_rf q = id_rs r) (refinement s)))
               (find (\<lambda>r. id_rs r = sessionId \<and> userId_rs r = userId) (researchSession s))),
        s))"

text \<open>\<open>findUnique({where: {id}, include: {refinements: true}})\<close>\<close>

definition prisma_researchSession_findUnique_refinements ::
  "string \<Rightarrow> (ResearchSession \<times> Refinement list) option io" where
  "prisma_researchSession_findUnique_refinements sessionId =
     storage (\<lambda>s.
       (Inr (map_option
               (\<lambda>r. (r, filter (\<lambda>q. researchSessionId_rf q = id_rs r) (refinement s)))
               (find (\<lambda>r. id_rs r = sessionId) (researchSession s))),
        s))"

text \<open>\<open>findUnique({where: {id}, include: {user: true}})\<close>\<close>

definition prisma_researchSession_findUnique_user ::
  "string \<Rightarrow> (ResearchSession \<times> User option) option io" where
  "prisma_researchSession_findUnique_user sessionId =
     storage (\<lambda>s.
       (Inr (map_option
               (\<lambda>r. (r, find (\<lambda>u. id_u u = userId_rs r) (user s)))
               (find (\<lambda>r. id_rs r = sessionId) (researchSession s))),
        s))"

text \<open>
  \<open>createMany\<close>: one row per entry (session id, question, index), unanswered, with
  generated ids.
\<close>

definition prisma_refinement_createMany :: "env \<Rightarrow> (string \<times> string \<times> int) list \<Rightarrow> unit io" where
  "prisma_refinement_createMany env data =
     storage (\<lambda>s.
       (Inr (),
        s\<lparr>refinement :=
            refinement s @
            map (\<lambda>(n, (researchSessionId, question, questionIndex)).
                   \<lparr>id_rf = cuid env n, researchSessionId_rf = researchSessionId,
                    question_rf = question, answer_rf = None,
                    questionIndex_rf = questionIndex, answeredAt_rf = None\<rparr>)
              (zip [created s ..< created s + length data] data),
          created := created s + length data\<rparr>))"

definition prisma_refinement_update ::
  "string \<Rightarrow> (Refinement \<Rightarrow> Refinement) \<Rightarrow> Refinement io" where
  "prisma_refinement_update refinementId data =
     storage (\<lambda>s.
       case find (\<lambda>q. id_rf q = refinementId) (refinement s) of
         None \<Rightarrow> (Inl (Error ''Record to update not found.''), s)
       | Some q \<Rightarrow>
           (Inr (data q),
            s\<lparr>refinement := updateWhere (\<lambda>q. id_rf q = refinementId) data (refinement s)\<rparr>))"

subsection \<open>JavaScript helpers\<close>

text \<open>\<open>x || d\<close> on an optional string.\<close>

definition orElse :: "string option \<Rightarrow> string \<Rightarrow> string" where
  "orElse x d = (case x of None \<Rightarrow> d | Some t \<Rightarrow> if t = [] then d else t)"

text \<open>\<open>x || undefined\<close> on an optional string.\<close>

definition orUndefined :: "string option \<Rightarrow> string option" where
  "orUndefined x = (if truthy x then x else None)"

text \<open>\<open>Array.prototype.join\<close>\<close>

fun join :: "string \<Rightarrow> string list \<Rightarrow> string" where
  "join sep [] = []"
| "join sep [x] = x"
| "join sep (x # y # ys) = x @ sep @ join sep (y # ys)"

text \<open>
  \<open>Promise.allSettled\<close> of two promises: each ends fulfilled (\<open>Inr\<close>) or rejected
  (\<open>Inl\<close>), and the combined promise never rejects. The two branches share nothing but
  the database; their storage operations are taken in the order of the array.
\<close>

definition allSettled2 :: "'a io \<Rightarrow> 'b io \<Rightarrow> ((error + 'a) \<times> (error + 'b)) io" where
  "allSettled2 p q = (\<lambda>s. case p s of (a, s1) \<Rightarrow> (case q s1 of (b, s2) \<Rightarrow> (Inr (a, b), s2)))"

subsection \<open>The operations\<close>


text \<open>The \<open>try\<close> block of \<open>runResearch\<close>.\<close>

definition runResearch_try :: "env \<Rightarrow> string \<Rightarrow> string \<Rightarrow> unit io" where
  "runResearch_try env sessionId prompt =
     andThen (prisma_researchSession_findUnique_user sessionId) (\<lambda>sessionData.
     case sessionData of
       None \<Rightarrow> throw (Error ''Session not found'')
     | Some (sessionData, sessionDataUser) \<Rightarrow>
     let userId = userId_rs sessionData in
     andThen (canMakeOpenAIRequest env userId) (\<lambda>canMakeOpenAI.
     andThen (canMakeGeminiRequest env userId) (\<lambda>canMakeGemini.
     if \<not> allowed canMakeOpenAI \<or> \<not> allowed canMakeGemini then
       let errorMsg =
             join '' ''
               (map (\<lambda>x. orElse x [])
                  (filter truthy
                     [if \<not> allowed canMakeOpenAI then reason canMakeOpenAI else None,
                      if \<not> allowed canMakeGemini then reason canMakeGemini else None]))
       in
       andThen (prisma_researchSession_update sessionId
                  (\<lambda>r. r\<lparr>status_rs := FAILED,
                         errorMessage_rs :=
                           Some (orElse (Some errorMsg) ''API usage limit reached'')\<rparr>)) (\<lambda>updated.
       throw (Error (orElse (Some errorMsg) ''API usage limit reached'')))
     else
       andThen (allSettled2
                  (andThen (external (startDeepResearch env prompt)) (\<lambda>r.
                   andThen (recordOpenAIRequest env userId) (\<lambda>recorded.
                   ret (orElse (result r) []))))
                  (andThen (external (research env prompt)) (\<lambda>result.
                   andThen (recordGeminiRequest env userId) (\<lambda>recorded.
                   ret result))))
         (\<lambda>(openaiResult, geminiResult).
       let openaiText = (case openaiResult of Inr v \<Rightarrow> v | Inl e \<Rightarrow> ''Research failed'');
           geminiText = (case geminiResult of Inr v \<Rightarrow> v | Inl e \<Rightarrow> ''Research failed'')
       in
       andThen (prisma_researchSession_update_user sessionId
                  (\<lambda>r. r\<lparr>openaiResult_rs := Some openaiText, geminiResult_rs := Some geminiText,
                         status_rs := COMPLETED\<rparr>)) (\<lambda>(session, sessionUser).
       andThen (external (generatePDFBuffer env (title_rs session) (initialPrompt_rs session)
                            (orUndefined (refinedPrompt_rs session))
                            (orUndefined (openaiResult_rs session))
                            (orUndefined (geminiResult_rs session))
                            (createdAt_rs session))) (\<lambda>pdfBuffer.
       let pdfUrl = ''/api/sessions/'' @ sessionId @ ''/pdf'' in
       andThen (prisma_researchSession_update sessionId
                  (\<lambda>r. r\<lparr>pdfUrl_rs := Some pdfUrl, pdfGeneratedAt_rs := Some (now env)\<rparr>)) (\<lambda>updated.
       case sessionUser of
         None \<Rightarrow> throw (Error ''Cannot read properties of null (reading email)'')
       | Some sessionUser \<Rightarrow>
           if truthy (email_u sessionUser) then
             try_catch
               (andThen (external (sendPDF env (orElse (email_u sessionUser) []) pdfBuffer
                                      (title_rs session) sessionId)) (\<lambda>sent.
                andThen (prisma_researchSession_update sessionId
                           (\<lambda>r. r\<lparr>emailSentAt_rs := Some (now env)\<rparr>)) (\<lambda>updated.
                ret ())))
               (\<lambda>emailError. ret ())
           else ret ())))))))"

definition runResearch :: "env \<Rightarrow> string \<Rightarrow> string \<Rightarrow> unit io" where
  "runResearch env sessionId prompt =
     andThen (prisma_researchSession_update sessionId
                (\<lambda>r. r\<lparr>status_rs := RUNNING_RESEARCH\<rparr>)) (\<lambda>updated.
     try_catch (runResearch_try env sessionId prompt)
       (\<lambda>error.
          andThen (prisma_researchSession_update sessionId
                     (\<lambda>r. r\<lparr>status_rs := FAILED,
                            errorMessage_rs := Some (message error)\<rparr>)) (\<lambda>updated.
          throw error)))"

text \<open>The \<open>try\<close> block of \<open>startSession\<close>.\<close>

definition startSession_try :: "env \<Rightarrow> string \<Rightarrow> ResearchSession \<Rightarrow> string \<Rightarrow> unit io" where
  "startSession_try env userId session initialPrompt =
     andThen (canMakeOpenAIRequest env userId) (\<lambda>canMakeRequest.
     if \<not> allowed canMakeRequest then
       andThen (prisma_researchSession_update (id_rs session)
                  (\<lambda>r. r\<lparr>status_rs := FAILED,
                         errorMessage_rs :=
                           Some (orElse (reason canMakeRequest) ''API usage limit reached'')\<rparr>))
         (\<lambda>updated.
       throw (Error (orElse (reason canMakeRequest) ''API usage limit reached'')))
     else
       andThen (external (startDeepResearch env initialPrompt)) (\<lambda>response.
       andThen (recordOpenAIRequest env userId) (\<lambda>recorded.
       if requiresRefinement response \<and> refinementQuestions response \<noteq> None then
         andThen (prisma_refinement_createMany env
                    (map (\<lambda>q. (id_rs session, question_q q, index_q q))
                       (case refinementQuestions response of Some qs \<Rightarrow> qs | None \<Rightarrow> [])))
           (\<lambda>count.
         andThen (prisma_researchSession_update (id_rs session)
                    (\<lambda>r. r\<lparr>status_rs := AWAITING_REFINEMENTS\<rparr>)) (\<lambda>updated.
         ret ()))
       else if truthy (result response) then
         runResearch env (id_rs session) initialPrompt
       else ret ())))"

definition startSession :: "env \<Rightarrow> string \<Rightarrow> string \<Rightarrow> string \<Rightarrow> ResearchSession io" where
  "startSession env userId title initialPrompt =
     andThen (prisma_researchSession_create env userId title initialPrompt CREATED) (\<lambda>session.
     andThen (try_catch (startSession_try env userId session initialPrompt)
                (\<lambda>error.
                   andThen (prisma_researchSession_update (id_rs session)
                              (\<lambda>r. r\<lparr>status_rs := FAILED,
                                     errorMessage_rs := Some (message error)\<rparr>)) (\<lambda>updated.
                   throw error))) (\<lambda>done.
     ret session))"


section \<open>Specification-level definitions\<close>

subsection \<open>Rollover of a usage row\<close>

text \<open>
  The two rollovers of a usage check applied to a row \<open>u\<close>. Both conditions are read
  from \<open>snapshot\<close>, the row as it was loaded at the start of the check.
\<close>

definition rollover :: "jsDate \<Rightarrow> ApiUsage \<Rightarrow> ApiUsage \<Rightarrow> ApiUsage" where
  "rollover nowd snapshot u =
     (let today = setHours0 nowd;
          lastReset = setHours0 (lastResetDate snapshot);
          u1 = (if getTime_gt today lastReset
                then u\<lparr>openaiRequestsToday := 0, geminiRequestsToday := 0, lastResetDate := today\<rparr>
                else u)
      in if month today \<noteq> month lastReset \<or> fullYear today \<noteq> fullYear lastReset
         then u1\<lparr>openaiRequestsMonth := 0, geminiRequestsMonth := 0, lastResetDate := today\<rparr>
         else u1)"

definition loaded :: "env \<Rightarrow> string \<Rightarrow> ApiUsage list \<Rightarrow> ApiUsage" where
  "loaded env userId table =
     (case find (\<lambda>u. userId_au u = userId) table of
        None \<Rightarrow> ApiUsage_defaults env userId
      | Some u \<Rightarrow> u)"

text \<open>The \<open>apiUsage\<close> table after a check has loaded or created the user's row and rolled it over.\<close>

definition rolledTable :: "env \<Rightarrow> string \<Rightarrow> ApiUsage list \<Rightarrow> ApiUsage list" where
  "rolledTable env userId table =
     updateWhere (\<lambda>u. userId_au u = userId) (rollover (now env) (loaded env userId table))
       (case find (\<lambda>u. userId_au u = userId) table of
          None \<Rightarrow> table @ [ApiUsage_defaults env userId]
        | Some u \<Rightarrow> table)"

text \<open>
  The rollovers as the spec words them: the month condition is read from the row as the
  day rollover has left it.
\<close>

definition rollover_reread :: "jsDate \<Rightarrow> ApiUsage \<Rightarrow> ApiUsage" where
  "rollover_reread nowd u =
     (let today = setHours0 nowd;
          u1 = (if getTime_gt today (setHours0 (lastResetDate u))
                then u\<lparr>openaiRequestsToday := 0, geminiRequestsToday := 0, lastResetDate := today\<rparr>
                else u);
          lastReset = setHours0 (lastResetDate u1)
      in if month today \<noteq> month lastReset \<or> fullYear today \<noteq> fullYear lastReset
         then u1\<lparr>openaiRequestsMonth := 0, geminiRequestsMonth := 0, lastResetDate := today\<rparr>
         else u1)"

subsection \<open>The three ceilings\<close>

text \<open>
  The verdict of a usage check, in the order of the spec: the user's daily count, the
  user's monthly count, the global daily count.
\<close>

definition ceilings :: "string \<Rightarrow> int \<Rightarrow> int \<Rightarrow> int \<Rightarrow> int \<Rightarrow> int \<Rightarrow> int \<Rightarrow> canMakeResult" where
  "ceilings provider todayCount dailyLimit monthCount monthlyLimit globalToday globalDailyLimit =
     (if todayCount \<ge> dailyLimit then
        \<lparr>allowed = False,
         reason = Some (''Daily '' @ provider @ '' limit reached ('' @ String_int dailyLimit
                        @ '' requests). Please try again tomorrow.'')\<rparr>
      else if monthCount \<ge> monthlyLimit then
        \<lparr>allowed = False,
         reason = Some (''Monthly '' @ provider @ '' limit reached ('' @ String_int monthlyLimit
                        @ '' requests). Limit resets at the start of next month.'')\<rparr>
      else if globalToday \<ge> globalDailyLimit then
        \<lparr>allowed = False,
         reason = Some ''Service temporarily unavailable due to high demand. Please try again later.''\<rparr>
      else \<lparr>allowed = True, reason = None\<rparr>)"

subsection \<open>Storage failures seen by a call\<close>

text \<open>
  \<open>consumed s s'\<close> is the behaviour of the storage engine on the operations performed
  between the states \<open>s\<close> and \<open>s'\<close>. A computation \<open>tracks\<close> the engine when it takes
  its operations' outcomes from the head of \<open>faults\<close> in order and returns a value only if
  none of them raised.
\<close>

definition consumed :: "db \<Rightarrow> db \<Rightarrow> error option list" where
  "consumed s s' = take (length (faults s) - length (faults s')) (faults s)"

definition tracks :: "'a io \<Rightarrow> bool" where
  "tracks m =
     (\<forall>s. \<exists>n \<le> length (faults s).
        faults (snd (m s)) = drop n (faults s)
        \<and> (\<forall>x. fst (m s) = Inr x \<longrightarrow> list_all (\<lambda>f. f = None) (take n (faults s))))"

subsection \<open>Verdicts and recorded calls on the usage table\<close>

text \<open>
  The answers of the two checks and the effect of the two recording calls, as functions
  of the \<open>apiUsage\<close> table (with a store that does not fail).
\<close>

definition openaiVerdict :: "env \<Rightarrow> string \<Rightarrow> ApiUsage list \<Rightarrow> canMakeResult" where
  "openaiVerdict env userId table =
     (let usage = rollover (now env) (loaded env userId table) (loaded env userId table)
      in ceilings ''OpenAI'' (openaiRequestsToday usage) (OPENAI_DAILY_LIMIT (API_LIMITS env))
           (openaiRequestsMonth usage) (OPENAI_MONTHLY_LIMIT (API_LIMITS env))
           (sum_list (map openaiRequestsToday (rolledTable env userId table)))
           (OPENAI_GLOBAL_DAILY_LIMIT (API_LIMITS env)))"

definition geminiVerdict :: "env \<Rightarrow> string \<Rightarrow> ApiUsage list \<Rightarrow> canMakeResult" where
  "geminiVerdict env userId table =
     (let usage = rollover (now env) (loaded env userId table) (loaded env userId table)
      in ceilings ''Gemini'' (geminiRequestsToday usage) (GEMINI_DAILY_LIMIT (API_LIMITS env))
           (geminiRequestsMonth usage) (GEMINI_MONTHLY_LIMIT (API_LIMITS env))
           (sum_list (map geminiRequestsToday (rolledTable env userId table)))
           (GEMINI_GLOBAL_DAILY_LIMIT (API_LIMITS env)))"

definition recordedOpenAI :: "env \<Rightarrow> string \<Rightarrow> ApiUsage list \<Rightarrow> ApiUsage list" where
  "recordedOpenAI env userId table =
     (case find (\<lambda>u. userId_au u = userId) table of
        None \<Rightarrow> table @ [(ApiUsage_defaults env userId)
                            \<lparr>openaiRequestsToday := 1, openaiRequestsMonth := 1\<rparr>]
      | Some u \<Rightarrow>
          updateWhere (\<lambda>u. userId_au u = userId)
            (\<lambda>u. u\<lparr>openaiRequestsToday := openaiRequestsToday u + 1,
                   openaiRequestsMonth := openaiRequestsMonth u + 1\<rparr>) table)"

definition recordedGemini :: "env \<Rightarrow> string \<Rightarrow> ApiUsage list \<Rightarrow> ApiUsage list" where
  "recordedGemini env userId table =
     (case find (\<lambda>u. userId_au u = userId) table of
        None \<Rightarrow> table @ [(ApiUsage_defaults env userId)
                            \<lparr>geminiRequestsToday := 1, geminiRequestsMonth := 1\<rparr>]
      | Some u \<Rightarrow>
          updateWhere (\<lambda>u. userId_au u = userId)
            (\<lambda>u. u\<lparr>geminiRequestsToday := geminiRequestsToday u + 1,
                   geminiRequestsMonth := geminiRequestsMonth u + 1\<rparr>) table)"

subsection \<open>The fan-out of \<open>runResearch\<close>\<close>

text \<open>
  The \<open>Promise.allSettled\<close> call of \<open>runResearch\<close>, the two result strings it leads
  to, and the usage table after it: a call is recorded for a provider exactly when its
  promise is fulfilled.
\<close>

definition fanOut :: "env \<Rightarrow> string \<Rightarrow> string \<Rightarrow> ((error + string) \<times> (error + string)) io" where
  "fanOut env userId prompt =
     allSettled2
                  (andThen (external (startDeepResearch env prompt)) (\<lambda>r.
                   andThen (recordOpenAIRequest env userId) (\<lambda>recorded.
                   ret (orElse (result r) []))))
                  (andThen (external (research env prompt)) (\<lambda>result.
                   andThen (recordGeminiRequest env userId) (\<lambda>recorded.
                   ret result)))"

definition openaiText_of :: "env \<Rightarrow> string \<Rightarrow> string" where
  "openaiText_of env prompt =
     (case startDeepResearch env prompt of
        Inr r \<Rightarrow> orElse (result r) [] | Inl e \<Rightarrow> ''Research failed'')"

definition geminiText_of :: "env \<Rightarrow> string \<Rightarrow> string" where
  "geminiText_of env prompt =
     (case research env prompt of Inr g \<Rightarrow> g | Inl e \<Rightarrow> ''Research failed'')"

definition recorded :: "env \<Rightarrow> string \<Rightarrow> string \<Rightarrow> ApiUsage list \<Rightarrow> ApiUsage list" where
  "recorded env userId prompt table =
     (let table1 = (case startDeepResearch env prompt of
                      Inr r \<Rightarrow> recordedOpenAI env userId table | Inl e \<Rightarrow> table)
      in (case research env prompt of
            Inr g \<Rightarrow> recordedGemini env userId table1 | Inl e \<Rightarrow> table1))"

text \<open>The session is stored as \<open>COMPLETED\<close> with the two result strings.\<close>

definition completedAs :: "string \<Rightarrow> string \<Rightarrow> string \<Rightarrow> db \<Rightarrow> bool" where
  "completedAs sessionId openaiText geminiText s =
     (case find (\<lambda>r. id_rs r = sessionId) (researchSession s) of
        None \<Rightarrow> False
      | Some row \<Rightarrow>
          status_rs row = COMPLETED
          \<and> openaiResult_rs row = Some openaiText
          \<and> geminiResult_rs row = Some geminiText)"

text \<open>The part of \<open>runResearch\<close> that follows the fan-out.\<close>

definition afterFanOut ::
  "env \<Rightarrow> string \<Rightarrow> (error + string) \<times> (error + string) \<Rightarrow> unit io" where
  "afterFanOut env sessionId =
         (\<lambda>(openaiResult, geminiResult).
       let openaiText = (case openaiResult of Inr v \<Rightarrow> v | Inl e \<Rightarrow> ''Research failed'');
           geminiText = (case geminiResult of Inr v \<Rightarrow> v | Inl e \<Rightarrow> ''Research failed'')
       in
       andThen (prisma_researchSession_update_user sessionId
                  (\<lambda>r. r\<lparr>openaiResult_rs := Some openaiText, geminiResult_rs := Some geminiText,
                         status_rs := COMPLETED\<rparr>)) (\<lambda>(session, sessionUser).
       andThen (external (generatePDFBuffer env (title_rs session) (initialPrompt_rs session)
                            (orUndefined (refinedPrompt_rs session))
                            (orUndefined (openaiResult_rs session))
                            (orUndefined (geminiResult_rs session))
                            (createdAt_rs session))) (\<lambda>pdfBuffer.
       let pdfUrl = ''/api/sessions/'' @ sessionId @ ''/pdf'' in
       andThen (prisma_researchSession_update sessionId
                  (\<lambda>r. r\<lparr>pdfUrl_rs := Some pdfUrl, pdfGeneratedAt_rs := Some (now env)\<rparr>)) (\<lambda>updated.
       case sessionUser of
         None \<Rightarrow> throw (Error ''Cannot read properties of null (reading email)'')
       | Some sessionUser \<Rightarrow>
           if truthy (email_u sessionUser) then
             try_catch
               (andThen (external (sendPDF env (orElse (email_u sessionUser) []) pdfBuffer
                                      (title_rs session) sessionId)) (\<lambda>sent.
                andThen (prisma_researchSession_update sessionId
                           (\<lambda>r. r\<lparr>emailSentAt_rs := Some (now env)\<rparr>)) (\<lambda>updated.
                ret ())))
               (\<lambda>emailError. ret ())
           else ret ()))))"

subsection \<open>Weakest preconditions\<close>

text \<open>
  \<open>wp m Q E s\<close>: run from \<open>s\<close>, \<open>m\<close> returns a value and a state that satisfy
  \<open>Q\<close>, or throws an error in a state that satisfy \<open>E\<close>.
\<close>

definition wp :: "'a io \<Rightarrow> ('a \<Rightarrow> db \<Rightarrow> bool) \<Rightarrow> (error \<Rightarrow> db \<Rightarrow> bool) \<Rightarrow> db \<Rightarrow> bool" where
  "wp m Q E s = (case m s of (Inl e, s') \<Rightarrow> E e s' | (Inr x, s') \<Rightarrow> Q x s')"

subsection \<open>The refined prompt and the status\<close>





text \<open>\<open>keeps I m\<close>: from a state that satisfies \<open>I\<close>, \<open>m\<close> ends in one, whatever it returns or throws.\<close>

definition keeps :: "(db \<Rightarrow> bool) \<Rightarrow> 'a io \<Rightarrow> bool" where
  "keeps I m = (\<forall>s. I s \<longrightarrow> I (snd (m s)))"

text \<open>A predicate that reads only the session table and the journal.\<close>

definition sessionOnly :: "(db \<Rightarrow> bool) \<Rightarrow> bool" where
  "sessionOnly I =
     (\<forall>s s'. researchSession s = researchSession s' \<and> journal s = journal s' \<longrightarrow> I s = I s')"


section \<open>Example inputs\<close>

definition mkRefinement :: "string \<Rightarrow> int \<Rightarrow> string option \<Rightarrow> RefinementData" where
  "mkRefinement i n a =
     \<lparr>id_rd = i, question_rd = ''Q?'', answer_rd = a, questionIndex_rd = n,
      answeredAt_rd = None\<rparr>"

definition jan1 :: jsDate where
  "jan1 = \<lparr>fullYear = 2024, month = 0, date = 1, msOfDay = 0\<rparr>"

definition mkSession :: "ResearchSessionStatus \<Rightarrow> RefinementData list \<Rightarrow> ResearchSessionData" where
  "mkSession st rs =
     \<lparr>id_sd = ''1'', userId_sd = ''user1'', initialPrompt_sd = ''Test prompt'',
      refinedPrompt_sd = None, status_sd = st, openaiResult_sd = None, geminiResult_sd = None,
      pdfUrl_sd = None, pdfGeneratedAt_sd = None, emailSentAt_sd = None, errorMessage_sd = None,
      createdAt_sd = jan1, updatedAt_sd = jan1, refinements_sd = rs\<rparr>"

definition API_LIMITS_default :: API_LIMITS where
  "API_LIMITS_default =
     \<lparr>OPENAI_DAILY_LIMIT = 10, GEMINI_DAILY_LIMIT = 20,
      OPENAI_MONTHLY_LIMIT = 100, GEMINI_MONTHLY_LIMIT = 200,
      OPENAI_GLOBAL_DAILY_LIMIT = 50, GEMINI_GLOBAL_DAILY_LIMIT = 100\<rparr>"

definition feb1 :: jsDate where
  "feb1 = \<lparr>fullYear = 2024, month = 1, date = 1, msOfDay = 36000000\<rparr>"

definition jan31 :: jsDate where
  "jan31 = \<lparr>fullYear = 2024, month = 0, date = 31, msOfDay = 0\<rparr>"

definition env_feb1 :: env where
  "env_feb1 =
     \<lparr>now = feb1, API_LIMITS = API_LIMITS_default, lastResetDate_default = feb1,
      cuid = (\<lambda>n. ''id'' @ digits n),
      startDeepResearch = (\<lambda>prompt. Inl (Error ''OpenAI API error: Unknown error occurred'')),
      research = (\<lambda>prompt. Inl (Error ''Gemini API error: Unknown error occurred'')),
      generatePDFBuffer = (\<lambda>title initialPrompt refinedPrompt openaiResult geminiResult createdAt.
         Inr ''%PDF''),
      sendPDF = (\<lambda>email pdf title sessionId. Inr ())\<rparr>"

definition usage_row :: "string \<Rightarrow> int \<Rightarrow> int \<Rightarrow> jsDate \<Rightarrow> ApiUsage" where
  "usage_row userId today monthly reset =
     \<lparr>userId_au = userId, openaiRequestsToday = today, openaiRequestsMonth = monthly,
      geminiRequestsToday = today, geminiRequestsMonth = monthly, lastResetDate = reset\<rparr>"

definition db_usage :: "ApiUsage list \<Rightarrow> error option list \<Rightarrow> db" where
  "db_usage rows fs =
     \<lparr>apiUsage = rows, researchSession = [], refinement = [], user = [], faults = fs,
      created = 0, journal = []\<rparr>"

definition env_gemini_down :: env where
  "env_gemini_down =
     \<lparr>now = feb1, API_LIMITS = API_LIMITS_default, lastResetDate_default = feb1,
      cuid = (\<lambda>n. ''id'' @ digits n),
      startDeepResearch = (\<lambda>prompt.
         Inr \<lparr>refinementQuestions = None, result = Some ''OpenAI findings'',
              requiresRefinement = False\<rparr>),
      research = (\<lambda>prompt.
         Inl (Error ''Gemini rate limit exceeded. Please try again in a few minutes.'')),
      generatePDFBuffer = (\<lambda>title initialPrompt refinedPrompt openaiResult geminiResult createdAt.
         Inr ''%PDF''),
      sendPDF = (\<lambda>email pdf title sessionId. Inr ())\<rparr>"

definition session_row :: "string \<Rightarrow> string \<Rightarrow> ResearchSessionStatus \<Rightarrow> string option \<Rightarrow> ResearchSession" where
  "session_row sessionId userId st refined =
     \<lparr>id_rs = sessionId, userId_rs = userId, title_rs = ''T'', initialPrompt_rs = ''X'',
      refinedPrompt_rs = refined, status_rs = st, openaiResult_rs = None,
      geminiResult_rs = None, pdfUrl_rs = None, pdfGeneratedAt_rs = None, emailSentAt_rs = None,
      errorMessage_rs = None, createdAt_rs = jan31\<rparr>"

definition db_sessions :: "ResearchSession list \<Rightarrow> Refinement list \<Rightarrow> db" where
  "db_sessions sessions refinements =
     \<lparr>apiUsage = [], researchSession = sessions, refinement = refinements,
      user = [\<lparr>id_u = ''u'', email_u = Some ''u@example.org''\<rparr>], faults = [],
      created = length sessions + length refinements, journal = []\<rparr>"

definition response_empty :: DeepResearchResponse where
  "response_empty = \<lparr>refinementQuestions = Some [], result = None, requiresRefinement = False\<rparr>"

definition response_direct :: DeepResearchResponse where
  "response_direct =
     \<lparr>refinementQuestions = None, result = Some ''R'', requiresRefinement = False\<rparr>"

definition env_openai_down :: env where
  "env_openai_down =
     \<lparr>now = feb1, API_LIMITS = API_LIMITS_default, lastResetDate_default = feb1,
      cuid = (\<lambda>n. ''id'' @ digits n),
      startDeepResearch = (\<lambda>prompt.
         Inl (Error ''OpenAI rate limit exceeded. Please try again in a few minutes.'')),
      research = (\<lambda>prompt. Inr ''Gemini findings''),
      generatePDFBuffer = (\<lambda>title initialPrompt refinedPrompt openaiResult geminiResult createdAt.
         Inr ''%PDF''),
      sendPDF = (\<lambda>email pdf title sessionId. Inr ())\<rparr>"

definition response_no_questions :: DeepResearchResponse where
  "response_no_questions = RealOpenAIClient_parsed (Some True) None None"

definition response_one_question :: DeepResearchResponse where
  "response_one_question =
     RealOpenAIClient_questions [\<lparr>question_q = ''Which period?'', index_q = 0\<rparr>]"

definition env_responding :: "DeepResearchResponse \<Rightarrow> env" where
  "env_responding response =
     \<lparr>now = feb1, API_LIMITS = API_LIMITS_default, lastResetDate_default = feb1,
      cuid = (\<lambda>n. ''id'' @ digits n),
      startDeepResearch = (\<lambda>prompt. Inr response),
      research = (\<lambda>prompt. Inr ''G''),
      generatePDFBuffer = (\<lambda>title initialPrompt refinedPrompt openaiResult geminiResult createdAt.
         Inr ''%PDF''),
      sendPDF = (\<lambda>email pdf title sessionId. Inr ())\<rparr>"

definition refinement_row :: "string \<Rightarrow> string \<Rightarrow> int \<Rightarrow> string option \<Rightarrow> Refinement" where
  "refinement_row refinementId sessionId n a =
     \<lparr>id_rf = refinementId, researchSessionId_rf = sessionId, question_rf = ''Q?'',
      answer_rf = a, questionIndex_rf = n, answeredAt_rf = None\<rparr>"

section \<open>Properties of the state machine\<close>

lemma new_Set_distinct: "distinct seen \<Longrightarrow> distinct (new_Set seen xs)"
  by (induction xs arbitrary: seen) auto

lemma new_Set_set: "set (new_Set seen xs) = set seen \<union> set xs"
  by (induction xs arbitrary: seen) auto

text \<open>
  C1. \<open>canTransition\<close> is true for a same-state pair and for every transition to
  \<open>FAILED\<close>; for any other pair it is true exactly when the table holds an entry for the
  pair whose guard is true on the snapshot, and false when the table holds no such entry.
\<close>

theorem canTransition_table:
  "canTransition s s session
   \<and> canTransition from FAILED session
   \<and> canTransition from to session =
       (from = to \<or> to = FAILED \<or>
        (\<exists>t \<in> set transitions. from_t t = from \<and> to_t t = to \<and> condition t session))"
  by (cases "from"; cases to; simp add: canTransition_def transitions_def)

lemma guard_iff:
  "(filter (\<lambda>r. \<not> truthy (answer_rd r)) rs = [] \<and> rs \<noteq> []) =
   (rs \<noteq> [] \<and> (\<forall>r \<in> set rs. truthy (answer_rd r)))"
  by (auto simp: filter_empty_conv)

lemma getNextStates_RIP:
  "getNextStates REFINEMENTS_IN_PROGRESS session =
    (if filter (\<lambda>r. \<not> truthy (answer_rd r)) (refinements_sd session) = []
        \<and> refinements_sd session \<noteq> []
     then [REFINEMENTS_IN_PROGRESS, REFINEMENTS_COMPLETE, FAILED]
     else [REFINEMENTS_IN_PROGRESS, FAILED])"
  by (simp add: getNextStates_def transitions_def Let_def)

text \<open>
  C2. The transition \<open>REFINEMENTS_IN_PROGRESS\<close> to \<open>REFINEMENTS_COMPLETE\<close> is legal,
  and the target is among the next states, exactly when the session has a refinement and
  every refinement has a non-empty answer. With three refinements of which one is
  unanswered the target is excluded; with all three answered it is included.
\<close>

theorem refinements_complete_guard:
  "(REFINEMENTS_COMPLETE \<in> set (getNextStates REFINEMENTS_IN_PROGRESS session)) =
     (refinements_sd session \<noteq> [] \<and> (\<forall>r \<in> set (refinements_sd session). truthy (answer_rd r)))
   \<and> canTransition REFINEMENTS_IN_PROGRESS REFINEMENTS_COMPLETE session =
     (refinements_sd session \<noteq> [] \<and> (\<forall>r \<in> set (refinements_sd session). truthy (answer_rd r)))
   \<and> (length (refinements_sd session) = 3
        \<and> length (filter (\<lambda>r. \<not> truthy (answer_rd r)) (refinements_sd session)) = 1
        \<longrightarrow> REFINEMENTS_COMPLETE \<notin> set (getNextStates REFINEMENTS_IN_PROGRESS session))
   \<and> (length (refinements_sd session) = 3
        \<and> length (filter (\<lambda>r. \<not> truthy (answer_rd r)) (refinements_sd session)) = 0
        \<longrightarrow> REFINEMENTS_COMPLETE \<in> set (getNextStates REFINEMENTS_IN_PROGRESS session))"
proof -
  let ?rs = "refinements_sd session"
  let ?g = "filter (\<lambda>r. \<not> truthy (answer_rd r)) ?rs = [] \<and> ?rs \<noteq> []"
  have mem: "(REFINEMENTS_COMPLETE \<in> set (getNextStates REFINEMENTS_IN_PROGRESS session)) = ?g"
    by (simp add: getNextStates_RIP)
  have can: "canTransition REFINEMENTS_IN_PROGRESS REFINEMENTS_COMPLETE session = ?g"
    by (simp add: canTransition_def transitions_def Let_def)
  have one: "length (filter (\<lambda>r. \<not> truthy (answer_rd r)) ?rs) = 1 \<Longrightarrow> \<not> ?g"
    by auto
  have zero: "length ?rs = 3 \<Longrightarrow> length (filter (\<lambda>r. \<not> truthy (answer_rd r)) ?rs) = 0 \<Longrightarrow> ?g"
    by auto
  show ?thesis
    using mem can one zero guard_iff [of ?rs] by blast
qed

theorem refinements_complete_guard_witness:
  "REFINEMENTS_COMPLETE \<notin> set (getNextStates REFINEMENTS_IN_PROGRESS
      (mkSession REFINEMENTS_IN_PROGRESS
        [mkRefinement ''r0'' 0 (Some ''a''), mkRefinement ''r1'' 1 None,
         mkRefinement ''r2'' 2 (Some ''c'')]))
   \<and> REFINEMENTS_COMPLETE \<in> set (getNextStates REFINEMENTS_IN_PROGRESS
      (mkSession REFINEMENTS_IN_PROGRESS
        [mkRefinement ''r0'' 0 (Some ''a''), mkRefinement ''r1'' 1 (Some ''b''),
         mkRefinement ''r2'' 2 (Some ''c'')]))"
  using refinements_complete_guard [of "mkSession REFINEMENTS_IN_PROGRESS
        [mkRefinement ''r0'' 0 (Some ''a''), mkRefinement ''r1'' 1 None,
         mkRefinement ''r2'' 2 (Some ''c'')]"]
    refinements_complete_guard [of "mkSession REFINEMENTS_IN_PROGRESS
        [mkRefinement ''r0'' 0 (Some ''a''), mkRefinement ''r1'' 1 (Some ''b''),
         mkRefinement ''r2'' 2 (Some ''c'')]"]
  by (simp add: mkSession_def mkRefinement_def)

lemma getNextStates_distinct: "distinct (getNextStates currentState session)"
  by (simp add: getNextStates_def Let_def new_Set_distinct)

text \<open>
  C9. \<open>FAILED\<close> is absorbing: its only next state is \<open>FAILED\<close> itself, a session whose
  status is \<open>FAILED\<close> has no canonical next state, and the list of next states of any
  state has no duplicates.
\<close>

theorem FAILED_absorbing:
  "getNextStates FAILED session = [FAILED]
   \<and> (status_sd session = FAILED \<longrightarrow> getNextState session = None)
   \<and> distinct (getNextStates currentState session)"
  by (simp add: getNextStates_distinct getNextState_def) (simp add: getNextStates_def transitions_def)

theorem FAILED_absorbing_witness:
  "status_sd (mkSession FAILED []) = FAILED \<and> getNextState (mkSession FAILED []) = None
   \<and> getNextStates FAILED (mkSession FAILED []) = [FAILED]"
  using FAILED_absorbing [of "mkSession FAILED []"]
  by (simp add: mkSession_def)

section \<open>Properties of the store\<close>

declare digits.simps [simp del]

lemma find_updateWhere:
  assumes "\<And>r. P (f r) = P r"
  shows "find P (updateWhere P f rows) = map_option f (find P rows)"
  using assms by (induction rows) (auto simp: updateWhere_def)

lemma find_snoc:
  "find P (xs @ [x]) = (case find P xs of None \<Rightarrow> (if P x then Some x else None) | Some y \<Rightarrow> Some y)"
  by (induction xs) auto

lemma updateWhere_none: "find P rows = None \<Longrightarrow> updateWhere P f rows = rows"
  by (induction rows) (auto simp: updateWhere_def split: if_splits)

lemma updateWhere_twice:
  assumes "\<And>r. P (g r) = P r"
  shows "updateWhere P f (updateWhere P g rows) = updateWhere P (\<lambda>r. f (g r)) rows"
  using assms by (induction rows) (auto simp: updateWhere_def)

lemma updateWhere_id: "updateWhere P (\<lambda>r. r) rows = rows"
  by (induction rows) (auto simp: updateWhere_def)

lemma updateWhere_snoc:
  "updateWhere P f (rows @ [r]) = updateWhere P f rows @ [if P r then f r else r]"
  by (simp add: updateWhere_def)

lemma storage_healthy: "faults s = [] \<Longrightarrow> storage op s = op s"
  by (simp add: storage_def)

lemma andThen_ret [simp]: "andThen (ret x) f = f x"
  by (simp add: andThen_def ret_def)

lemma andThen_throw [simp]: "andThen (throw e) f = throw e"
  by (simp add: andThen_def throw_def)

lemma andThen_findUnique_healthy:
  "faults s = [] \<Longrightarrow>
   andThen (prisma_apiUsage_findUnique uid) k s = k (find (\<lambda>u. userId_au u = uid) (apiUsage s)) s"
  by (simp add: andThen_def prisma_apiUsage_findUnique_def storage_healthy)

lemma andThen_create_healthy:
  "faults s = [] \<Longrightarrow> find (\<lambda>u. userId_au u = userId_au row) (apiUsage s) = None \<Longrightarrow>
   andThen (prisma_apiUsage_create row) k s = k row (s\<lparr>apiUsage := apiUsage s @ [row]\<rparr>)"
  by (simp add: andThen_def prisma_apiUsage_create_def storage_healthy)

lemma andThen_update_healthy:
  "faults s = [] \<Longrightarrow> find (\<lambda>u. userId_au u = uid) (apiUsage s) = Some u \<Longrightarrow>
   andThen (prisma_apiUsage_update uid f) k s =
     k (f u) (s\<lparr>apiUsage := updateWhere (\<lambda>u. userId_au u = uid) f (apiUsage s)\<rparr>)"
  by (simp add: andThen_def prisma_apiUsage_update_def storage_healthy)

lemma andThen_aggregate_healthy:
  "faults s = [] \<Longrightarrow>
   andThen (prisma_apiUsage_aggregate_sum col) k s =
     k (if apiUsage s = [] then None else Some (sum_list (map col (apiUsage s)))) s"
  by (simp add: andThen_def prisma_apiUsage_aggregate_sum_def storage_healthy)

text \<open>The first four steps of both checks: load or create the row, then the two rollovers.\<close>

lemma rollover_steps:
  assumes h: "faults s = []"
  shows "andThen (prisma_apiUsage_findUnique userId) (\<lambda>found.
     andThen (case found of
                None \<Rightarrow> prisma_apiUsage_create (ApiUsage_defaults env userId)
              | Some u \<Rightarrow> ret u) (\<lambda>usage.
     let today = setHours0 (now env);
         lastReset = setHours0 (lastResetDate usage)
     in
     andThen (if getTime_gt today lastReset
              then prisma_apiUsage_update userId
                     (\<lambda>u. u\<lparr>openaiRequestsToday := 0, geminiRequestsToday := 0,
                            lastResetDate := today\<rparr>)
              else ret usage) (\<lambda>usage.
     let currentMonth = month today;
         lastResetMonth = month lastReset;
         currentYear = fullYear today;
         lastResetYear = fullYear lastReset
     in
     andThen (if currentMonth \<noteq> lastResetMonth \<or> currentYear \<noteq> lastResetYear
              then prisma_apiUsage_update userId
                     (\<lambda>u. u\<lparr>openaiRequestsMonth := 0, geminiRequestsMonth := 0,
                            lastResetDate := today\<rparr>)
              else ret usage) k))) s
    = k (rollover (now env) (loaded env userId (apiUsage s)) (loaded env userId (apiUsage s)))
        (s\<lparr>apiUsage := rolledTable env userId (apiUsage s)\<rparr>)"
proof (cases "find (\<lambda>u. userId_au u = userId) (apiUsage s)")
  case None
  have d: "userId_au (ApiUsage_defaults env userId) = userId"
    by (simp add: ApiUsage_defaults_def)
  show ?thesis
    using h None
    by (simp add: andThen_findUnique_healthy andThen_create_healthy andThen_update_healthy d
        Let_def find_snoc find_updateWhere updateWhere_twice updateWhere_id updateWhere_none
        updateWhere_snoc rollover_def [abs_def] rolledTable_def loaded_def)
next
  case (Some u0)
  show ?thesis
    using h Some
    by (simp add: andThen_findUnique_healthy andThen_update_healthy
        Let_def find_updateWhere updateWhere_twice updateWhere_id
        rollover_def [abs_def] rolledTable_def loaded_def)
qed

section \<open>Properties of the usage guard\<close>

lemma tracks_ret: "tracks (ret x)"
  unfolding tracks_def ret_def by (intro allI exI [of _ 0]) simp

lemma tracks_throw: "tracks (throw e)"
  unfolding tracks_def throw_def by (intro allI exI [of _ 0]) simp

lemma tracks_storage:
  assumes "\<And>s. faults (snd (op s)) = faults s"
  shows "tracks (storage op)"
  unfolding tracks_def
proof
  fix s
  show "\<exists>n \<le> length (faults s).
        faults (snd (storage op s)) = drop n (faults s)
        \<and> (\<forall>x. fst (storage op s) = Inr x \<longrightarrow> list_all (\<lambda>f. f = None) (take n (faults s)))"
  proof (cases "faults s")
    case Nil
    then show ?thesis using assms [of s] by (intro exI [of _ 0]) (simp add: storage_def)
  next
    case (Cons f fs)
    then show ?thesis using assms [of "s\<lparr>faults := fs\<rparr>"]
      by (intro exI [of _ 1]) (cases f; simp add: storage_def)
  qed
qed

lemma tracks_andThen:
  assumes m: "tracks m" and f: "\<And>x. tracks (f x)"
  shows "tracks (andThen m f)"
  unfolding tracks_def
proof
  fix s
  obtain n1 where n1: "n1 \<le> length (faults s)" "faults (snd (m s)) = drop n1 (faults s)"
    "\<And>x. fst (m s) = Inr x \<Longrightarrow> list_all (\<lambda>f. f = None) (take n1 (faults s))"
    using m unfolding tracks_def by blast
  show "\<exists>n \<le> length (faults s).
        faults (snd (andThen m f s)) = drop n (faults s)
        \<and> (\<forall>x. fst (andThen m f s) = Inr x \<longrightarrow> list_all (\<lambda>f. f = None) (take n (faults s)))"
  proof (cases "m s")
    case (Pair r s1)
    show ?thesis
    proof (cases r)
      case (Inl e)
      then show ?thesis using Pair n1 by (intro exI [of _ n1]) (simp add: andThen_def)
    next
      case (Inr x)
      obtain n2 where n2: "n2 \<le> length (faults s1)" "faults (snd (f x s1)) = drop n2 (faults s1)"
        "\<And>y. fst (f x s1) = Inr y \<Longrightarrow> list_all (\<lambda>f. f = None) (take n2 (faults s1))"
        using f [of x] unfolding tracks_def by blast
      have s1: "faults s1 = drop n1 (faults s)" using n1(2) Pair by simp
      have all1: "list_all (\<lambda>f. f = None) (take n1 (faults s))" using n1(3) Pair Inr by simp
      have run: "andThen m f s = f x s1" using Pair Inr by (simp add: andThen_def)
      have split: "take (n1 + n2) (faults s) = take n1 (faults s) @ take n2 (drop n1 (faults s))"
        by (simp add: take_add)
      show ?thesis
        using n1(1) n2 all1
        by (intro exI [of _ "n1 + n2"]) (simp add: run s1 split add.commute)
    qed
  qed
qed

lemma tracks_try_catch:
  assumes m: "tracks m"
  shows "\<exists>n \<le> length (faults s).
           faults (snd (try_catch m (\<lambda>e. ret d) s)) = drop n (faults s)
           \<and> (fst (try_catch m (\<lambda>e. ret d) s) = Inr d
               \<or> list_all (\<lambda>f. f = None) (take n (faults s)))"
proof -
  obtain n where n: "n \<le> length (faults s)" "faults (snd (m s)) = drop n (faults s)"
    "\<And>x. fst (m s) = Inr x \<Longrightarrow> list_all (\<lambda>f. f = None) (take n (faults s))"
    using m unfolding tracks_def by blast
  show ?thesis
    using n by (intro exI [of _ n]) (cases "m s"; cases "fst (m s)"; simp add: try_catch_def ret_def)
qed

lemma tracks_findUnique: "tracks (prisma_apiUsage_findUnique uid)"
  unfolding prisma_apiUsage_findUnique_def by (rule tracks_storage) simp

lemma tracks_create: "tracks (prisma_apiUsage_create row)"
  unfolding prisma_apiUsage_create_def by (rule tracks_storage) (simp split: option.splits)

lemma tracks_update: "tracks (prisma_apiUsage_update uid f)"
  unfolding prisma_apiUsage_update_def by (rule tracks_storage) (simp split: option.splits)

lemma tracks_aggregate: "tracks (prisma_apiUsage_aggregate_sum col)"
  unfolding prisma_apiUsage_aggregate_sum_def by (rule tracks_storage) simp

lemma tracks_if: "tracks a \<Longrightarrow> tracks b \<Longrightarrow> tracks (if c then a else b)"
  by simp

lemma tracks_case_option:
  "tracks a \<Longrightarrow> (\<And>x. tracks (b x)) \<Longrightarrow> tracks (case v of None \<Rightarrow> a | Some x \<Rightarrow> b x)"
  by (cases v) simp_all

lemmas tracks_intros = tracks_andThen tracks_ret tracks_throw tracks_findUnique tracks_create
  tracks_update tracks_aggregate tracks_if tracks_case_option

lemma tracks_canMakeOpenAIRequest_try: "tracks (canMakeOpenAIRequest_try env userId)"
  unfolding canMakeOpenAIRequest_try_def Let_def by (intro tracks_intros)

lemma tracks_canMakeGeminiRequest_try: "tracks (canMakeGeminiRequest_try env userId)"
  unfolding canMakeGeminiRequest_try_def Let_def by (intro tracks_intros)

lemma consumed_drop: "n \<le> length fs \<Longrightarrow> faults s = fs \<Longrightarrow> faults s' = drop n fs \<Longrightarrow> consumed s s' = take n fs"
  by (simp add: consumed_def)

lemma fail_open_aux:
  assumes "tracks m" and "try_catch m (\<lambda>e. ret d) s = (r, s')"
    and "Some e \<in> set (consumed s s')"
  shows "r = Inr d"
proof -
  obtain n where n: "n \<le> length (faults s)"
    "faults (snd (try_catch m (\<lambda>e. ret d) s)) = drop n (faults s)"
    "fst (try_catch m (\<lambda>e. ret d) s) = Inr d \<or> list_all (\<lambda>f. f = None) (take n (faults s))"
    using tracks_try_catch [OF assms(1)] by blast
  have "consumed s s' = take n (faults s)"
    using n(1,2) assms(2) by (simp add: consumed_def)
  then have "\<not> list_all (\<lambda>f. f = None) (take n (faults s))"
    using assms(3) by (auto simp: list_all_iff)
  then show ?thesis using n(3) assms(2) by simp
qed

text \<open>
  C6. The checks fail open: when a storage operation performed during
  \<open>canMakeOpenAIRequest\<close> or \<open>canMakeGeminiRequest\<close> raises, the call returns
  \<open>allowed: true\<close>, whatever the counters are.
\<close>

theorem canMakeRequest_fails_open:
  "(canMakeOpenAIRequest env userId s = (r, s') \<and> Some e \<in> set (consumed s s')
      \<longrightarrow> r = Inr \<lparr>allowed = True, reason = None\<rparr>)
   \<and> (canMakeGeminiRequest env userId s = (r, s') \<and> Some e \<in> set (consumed s s')
      \<longrightarrow> r = Inr \<lparr>allowed = True, reason = None\<rparr>)"
  using fail_open_aux [OF tracks_canMakeOpenAIRequest_try, of env userId _ s r s' e]
    fail_open_aux [OF tracks_canMakeGeminiRequest_try, of env userId _ s r s' e]
  by (simp add: canMakeOpenAIRequest_def canMakeGeminiRequest_def)

lemma canMakeOpenAIRequest_healthy:
  assumes "faults s = []"
  shows "canMakeOpenAIRequest env userId s =
    (let s' = s\<lparr>apiUsage := rolledTable env userId (apiUsage s)\<rparr>;
         usage = rollover (now env) (loaded env userId (apiUsage s)) (loaded env userId (apiUsage s))
     in (Inr (ceilings ''OpenAI'' (openaiRequestsToday usage) (OPENAI_DAILY_LIMIT (API_LIMITS env))
               (openaiRequestsMonth usage) (OPENAI_MONTHLY_LIMIT (API_LIMITS env))
               (sum_list (map openaiRequestsToday (apiUsage s')))
               (OPENAI_GLOBAL_DAILY_LIMIT (API_LIMITS env))), s'))"
  unfolding canMakeOpenAIRequest_def canMakeOpenAIRequest_try_def try_catch_def
  by (subst rollover_steps [OF assms])
    (simp add: assms andThen_aggregate_healthy ret_def Let_def ceilings_def)

lemma canMakeGeminiRequest_healthy:
  assumes "faults s = []"
  shows "canMakeGeminiRequest env userId s =
    (let s' = s\<lparr>apiUsage := rolledTable env userId (apiUsage s)\<rparr>;
         usage = rollover (now env) (loaded env userId (apiUsage s)) (loaded env userId (apiUsage s))
     in (Inr (ceilings ''Gemini'' (geminiRequestsToday usage) (GEMINI_DAILY_LIMIT (API_LIMITS env))
               (geminiRequestsMonth usage) (GEMINI_MONTHLY_LIMIT (API_LIMITS env))
               (sum_list (map geminiRequestsToday (apiUsage s')))
               (GEMINI_GLOBAL_DAILY_LIMIT (API_LIMITS env))), s'))"
  unfolding canMakeGeminiRequest_def canMakeGeminiRequest_try_def try_catch_def
  by (subst rollover_steps [OF assms])
    (simp add: assms andThen_aggregate_healthy ret_def Let_def ceilings_def)

lemma find_rolledTable:
  "find (\<lambda>u. userId_au u = userId) (rolledTable env userId table)
     = Some (rollover (now env) (loaded env userId table) (loaded env userId table))"
proof -
  have "\<And>r. userId_au (rollover (now env) (loaded env userId table) r) = userId_au r"
    by (simp add: rollover_def Let_def)
  then show ?thesis
    by (simp add: rolledTable_def find_updateWhere find_snoc loaded_def ApiUsage_defaults_def
        split: option.splits)
qed

text \<open>
  C5. With a healthy store, the answer of a check is read from the user's row and the
  table as they are after the rollovers: the daily ceiling first, then the monthly one,
  then the global daily one (the sum of today-counts over all rows), else allowed.
\<close>

theorem canMakeRequest_ceilings:
  assumes "faults s = []"
  shows "\<exists>usage s'.
     s' = s\<lparr>apiUsage := rolledTable env userId (apiUsage s)\<rparr>
     \<and> find (\<lambda>u. userId_au u = userId) (apiUsage s') = Some usage
     \<and> canMakeOpenAIRequest env userId s =
         (Inr (ceilings ''OpenAI''
                 (openaiRequestsToday usage) (OPENAI_DAILY_LIMIT (API_LIMITS env))
                 (openaiRequestsMonth usage) (OPENAI_MONTHLY_LIMIT (API_LIMITS env))
                 (sum_list (map openaiRequestsToday (apiUsage s')))
                 (OPENAI_GLOBAL_DAILY_LIMIT (API_LIMITS env))), s')
     \<and> canMakeGeminiRequest env userId s =
         (Inr (ceilings ''Gemini''
                 (geminiRequestsToday usage) (GEMINI_DAILY_LIMIT (API_LIMITS env))
                 (geminiRequestsMonth usage) (GEMINI_MONTHLY_LIMIT (API_LIMITS env))
                 (sum_list (map geminiRequestsToday (apiUsage s')))
                 (GEMINI_GLOBAL_DAILY_LIMIT (API_LIMITS env))), s')"
  using assms
  by (simp add: canMakeOpenAIRequest_healthy canMakeGeminiRequest_healthy find_rolledTable Let_def)

lemma String_int_10: "String_int 10 = ''10''"
  by (simp add: String_int_def digits.simps [of 10] digits.simps [of "Suc 0"])

theorem canMakeRequest_ceilings_witness:
  "faults (db_usage [usage_row ''u'' 10 10 feb1] []) = []
   \<and> fst (canMakeOpenAIRequest env_feb1 ''u'' (db_usage [usage_row ''u'' 10 10 feb1] []))
       = Inr \<lparr>allowed = False,
              reason = Some ''Daily OpenAI limit reached (10 requests). Please try again tomorrow.''\<rparr>
   \<and> fst (canMakeOpenAIRequest env_feb1 ''u'' (db_usage [usage_row ''u'' 9 9 feb1] []))
       = Inr \<lparr>allowed = True, reason = None\<rparr>"
  using canMakeRequest_ceilings [of "db_usage [usage_row ''u'' 10 10 feb1] []" env_feb1 "''u''"]
    canMakeRequest_ceilings [of "db_usage [usage_row ''u'' 9 9 feb1] []" env_feb1 "''u''"]
  by (simp add: db_usage_def usage_row_def env_feb1_def feb1_def API_LIMITS_default_def
      rolledTable_def rollover_def loaded_def updateWhere_def setHours0_def getTime_gt_def
      ceilings_def String_int_10 Let_def)



text \<open>
  The witness of C6: a user at the daily limit whose first storage operation raises, and a
  table over the global limit whose aggregate query raises; without the failure the second
  check denies.
\<close>

theorem canMakeRequest_fails_open_witness:
  "canMakeOpenAIRequest env_feb1 ''u''
       (db_usage [usage_row ''u'' 10 100 feb1] [Some (Error ''database is locked'')])
     = (Inr \<lparr>allowed = True, reason = None\<rparr>, db_usage [usage_row ''u'' 10 100 feb1] [])
   \<and> canMakeGeminiRequest env_feb1 ''u''
       (db_usage [usage_row ''u'' 0 0 feb1, usage_row ''v'' 100 100 feb1]
          [None, Some (Error ''database is locked'')])
     = (Inr \<lparr>allowed = True, reason = None\<rparr>,
        db_usage [usage_row ''u'' 0 0 feb1, usage_row ''v'' 100 100 feb1] [])
   \<and> fst (canMakeGeminiRequest env_feb1 ''u''
       (db_usage [usage_row ''u'' 0 0 feb1, usage_row ''v'' 100 100 feb1] []))
     = Inr \<lparr>allowed = False,
            reason = Some ''Service temporarily unavailable due to high demand. Please try again later.''\<rparr>"
proof -
  let ?s1 = "db_usage [usage_row ''u'' 10 100 feb1] [Some (Error ''database is locked'')]"
  let ?s2 = "db_usage [usage_row ''u'' 0 0 feb1, usage_row ''v'' 100 100 feb1]
          [None, Some (Error ''database is locked'')]"
  have c1: "Some (Error ''database is locked'') \<in> set (consumed ?s1 (db_usage [usage_row ''u'' 10 100 feb1] []))"
    by (simp add: consumed_def db_usage_def)
  have c2: "Some (Error ''database is locked'') \<in> set (consumed ?s2 (db_usage [usage_row ''u'' 0 0 feb1, usage_row ''v'' 100 100 feb1] []))"
    by (simp add: consumed_def db_usage_def)
  have r1: "snd (canMakeOpenAIRequest env_feb1 ''u'' ?s1) = db_usage [usage_row ''u'' 10 100 feb1] []"
    by (simp add: canMakeOpenAIRequest_def canMakeOpenAIRequest_try_def try_catch_def andThen_def
        prisma_apiUsage_findUnique_def storage_def db_usage_def ret_def)
  have r2: "snd (canMakeGeminiRequest env_feb1 ''u'' ?s2)
      = db_usage [usage_row ''u'' 0 0 feb1, usage_row ''v'' 100 100 feb1] []"
    by (simp add: canMakeGeminiRequest_def canMakeGeminiRequest_try_def try_catch_def andThen_def
        prisma_apiUsage_findUnique_def prisma_apiUsage_aggregate_sum_def prisma_apiUsage_update_def
        storage_def db_usage_def ret_def usage_row_def env_feb1_def feb1_def Let_def
        setHours0_def getTime_gt_def API_LIMITS_default_def)
  have r3: "fst (canMakeGeminiRequest env_feb1 ''u''
       (db_usage [usage_row ''u'' 0 0 feb1, usage_row ''v'' 100 100 feb1] []))
     = Inr \<lparr>allowed = False,
            reason = Some ''Service temporarily unavailable due to high demand. Please try again later.''\<rparr>"
    by (simp add: canMakeGeminiRequest_healthy db_usage_def usage_row_def env_feb1_def feb1_def
        API_LIMITS_default_def rolledTable_def rollover_def loaded_def updateWhere_def
        setHours0_def getTime_gt_def ceilings_def Let_def)
  show ?thesis
    using canMakeRequest_fails_open [of env_feb1 "''u''" ?s1
        "fst (canMakeOpenAIRequest env_feb1 ''u'' ?s1)" "snd (canMakeOpenAIRequest env_feb1 ''u'' ?s1)"
        "Error ''database is locked''"]
      canMakeRequest_fails_open [of env_feb1 "''u''" ?s2
        "fst (canMakeGeminiRequest env_feb1 ''u'' ?s2)" "snd (canMakeGeminiRequest env_feb1 ''u'' ?s2)"
        "Error ''database is locked''"]
      c1 c2 r3
    unfolding r1 r2
    by (metis prod.collapse r1 r2)
qed

lemma rollover_monthly:
  "openaiRequestsMonth (rollover nowd u0 u0) =
     (if month nowd \<noteq> month (lastResetDate u0) \<or> fullYear nowd \<noteq> fullYear (lastResetDate u0)
      then 0 else openaiRequestsMonth u0)
   \<and> geminiRequestsMonth (rollover nowd u0 u0) =
     (if month nowd \<noteq> month (lastResetDate u0) \<or> fullYear nowd \<noteq> fullYear (lastResetDate u0)
      then 0 else geminiRequestsMonth u0)"
  by (simp add: rollover_def Let_def setHours0_def)

text \<open>
  C7, as amended. The month rollover reads the \<open>lastResetDate\<close> that was loaded at the
  start of the call, not the one a day rollover of the same call has just written: with a
  healthy store the user's row after a check is the loaded row, reset for the day when the
  day of now is after that date, and reset for the month when the month or year of now
  differs from that date's.
\<close>

theorem month_rollover_reads_snapshot:
  assumes "faults s = []" and "find (\<lambda>u. userId_au u = userId) (apiUsage s) = Some u0"
  shows "\<exists>usage.
     find (\<lambda>u. userId_au u = userId) (apiUsage (snd (canMakeOpenAIRequest env userId s))) = Some usage
     \<and> find (\<lambda>u. userId_au u = userId) (apiUsage (snd (canMakeGeminiRequest env userId s))) = Some usage
     \<and> usage = rollover (now env) u0 u0
     \<and> openaiRequestsMonth usage =
         (if month (now env) \<noteq> month (lastResetDate u0)
             \<or> fullYear (now env) \<noteq> fullYear (lastResetDate u0)
          then 0 else openaiRequestsMonth u0)
     \<and> geminiRequestsMonth usage =
         (if month (now env) \<noteq> month (lastResetDate u0)
             \<or> fullYear (now env) \<noteq> fullYear (lastResetDate u0)
          then 0 else geminiRequestsMonth u0)"
proof -
  have l: "loaded env userId (apiUsage s) = u0"
    using assms(2) by (simp add: loaded_def)
  show ?thesis
    using assms(1) rollover_monthly [of "now env" u0]
    by (simp add: canMakeOpenAIRequest_healthy canMakeGeminiRequest_healthy Let_def
        find_rolledTable l)
qed

theorem month_rollover_reads_snapshot_witness:
  "find (\<lambda>u. userId_au u = ''u'')
     (apiUsage (snd (canMakeOpenAIRequest env_feb1 ''u'' (db_usage [usage_row ''u'' 3 5 jan31] []))))
   = Some \<lparr>userId_au = ''u'', openaiRequestsToday = 0, openaiRequestsMonth = 0,
           geminiRequestsToday = 0, geminiRequestsMonth = 0,
           lastResetDate = \<lparr>fullYear = 2024, month = 1, date = 1, msOfDay = 0\<rparr>\<rparr>"
  using month_rollover_reads_snapshot [of "db_usage [usage_row ''u'' 3 5 jan31] []" "''u''"
      "usage_row ''u'' 3 5 jan31" env_feb1]
  by (simp add: db_usage_def usage_row_def env_feb1_def feb1_def jan31_def rollover_def Let_def
      setHours0_def getTime_gt_def)

text \<open>
  C7, as stated, fails: the row was last reset on 31 January with a month-count of 5 and is
  checked on 1 February. The day rollover writes 1 February into \<open>lastResetDate\<close>; read
  from there the month would not have changed and the month-count would stay 5, but the
  check resets it to 0.
\<close>

theorem month_rollover_reread_counterexample:
  "map openaiRequestsMonth
     (apiUsage (snd (canMakeOpenAIRequest env_feb1 ''u'' (db_usage [usage_row ''u'' 3 5 jan31] []))))
     = [0]
   \<and> map lastResetDate
     (apiUsage (snd (canMakeOpenAIRequest env_feb1 ''u'' (db_usage [usage_row ''u'' 3 5 jan31] []))))
     = [setHours0 (now env_feb1)]
   \<and> openaiRequestsMonth (rollover_reread (now env_feb1) (usage_row ''u'' 3 5 jan31)) = 5
   \<and> apiUsage (snd (canMakeOpenAIRequest env_feb1 ''u'' (db_usage [usage_row ''u'' 3 5 jan31] [])))
     \<noteq> [rollover_reread (now env_feb1) (usage_row ''u'' 3 5 jan31)]"
  by (simp add: canMakeOpenAIRequest_healthy db_usage_def usage_row_def env_feb1_def feb1_def
      jan31_def rolledTable_def loaded_def updateWhere_def rollover_def rollover_reread_def Let_def
      setHours0_def getTime_gt_def)

lemma upsert_healthy:
  "faults s = [] \<Longrightarrow>
   prisma_apiUsage_upsert uid c f s =
     (case find (\<lambda>u. userId_au u = uid) (apiUsage s) of
        None \<Rightarrow> (Inr c, s\<lparr>apiUsage := apiUsage s @ [c]\<rparr>)
      | Some u \<Rightarrow> (Inr (f u), s\<lparr>apiUsage := updateWhere (\<lambda>u. userId_au u = uid) f (apiUsage s)\<rparr>))"
  by (simp add: prisma_apiUsage_upsert_def storage_healthy)

lemma recordOpenAIRequest_healthy:
  "faults s = [] \<Longrightarrow>
   recordOpenAIRequest env userId s =
     (Inr (),
      s\<lparr>apiUsage :=
          (case find (\<lambda>u. userId_au u = userId) (apiUsage s) of
             None \<Rightarrow> apiUsage s @ [(ApiUsage_defaults env userId)
                                     \<lparr>openaiRequestsToday := 1, openaiRequestsMonth := 1\<rparr>]
           | Some u \<Rightarrow>
               updateWhere (\<lambda>u. userId_au u = userId)
                 (\<lambda>u. u\<lparr>openaiRequestsToday := openaiRequestsToday u + 1,
                        openaiRequestsMonth := openaiRequestsMonth u + 1\<rparr>) (apiUsage s))\<rparr>)"
  by (simp add: recordOpenAIRequest_def recordOpenAIRequest_try_def try_catch_def andThen_def
      upsert_healthy ret_def split: option.splits)

lemma recordGeminiRequest_healthy:
  "faults s = [] \<Longrightarrow>
   recordGeminiRequest env userId s =
     (Inr (),
      s\<lparr>apiUsage :=
          (case find (\<lambda>u. userId_au u = userId) (apiUsage s) of
             None \<Rightarrow> apiUsage s @ [(ApiUsage_defaults env userId)
                                     \<lparr>geminiRequestsToday := 1, geminiRequestsMonth := 1\<rparr>]
           | Some u \<Rightarrow>
               updateWhere (\<lambda>u. userId_au u = userId)
                 (\<lambda>u. u\<lparr>geminiRequestsToday := geminiRequestsToday u + 1,
                        geminiRequestsMonth := geminiRequestsMonth u + 1\<rparr>) (apiUsage s))\<rparr>)"
  by (simp add: recordGeminiRequest_def recordGeminiRequest_try_def try_catch_def andThen_def
      upsert_healthy ret_def split: option.splits)

lemma record_never_raises:
  "fst (recordOpenAIRequest env userId s) = Inr ()"
  "fst (recordGeminiRequest env userId s) = Inr ()"
  by (simp_all add: recordOpenAIRequest_def recordGeminiRequest_def try_catch_def ret_def
      split: prod.splits sum.splits)

text \<open>
  C8. \<open>recordOpenAIRequest\<close> and \<open>recordGeminiRequest\<close> never raise; with a healthy
  store a call adds 1 to the provider's today-count and month-count in the user's row and
  leaves every other row as it is, or creates the row with these two counts at 1 and the
  others at their defaults; three calls for a user without a row leave both counts at 3.
\<close>

theorem recordRequest_increments:
  "fst (recordOpenAIRequest env userId s) = Inr ()
   \<and> fst (recordGeminiRequest env userId s) = Inr ()
   \<and> (faults s = [] \<longrightarrow>
        apiUsage (snd (recordOpenAIRequest env userId s)) =
          (case find (\<lambda>u. userId_au u = userId) (apiUsage s) of
             None \<Rightarrow> apiUsage s @ [(ApiUsage_defaults env userId)
                                     \<lparr>openaiRequestsToday := 1, openaiRequestsMonth := 1\<rparr>]
           | Some u \<Rightarrow>
               updateWhere (\<lambda>u. userId_au u = userId)
                 (\<lambda>u. u\<lparr>openaiRequestsToday := openaiRequestsToday u + 1,
                        openaiRequestsMonth := openaiRequestsMonth u + 1\<rparr>) (apiUsage s))
        \<and> apiUsage (snd (recordGeminiRequest env userId s)) =
          (case find (\<lambda>u. userId_au u = userId) (apiUsage s) of
             None \<Rightarrow> apiUsage s @ [(ApiUsage_defaults env userId)
                                     \<lparr>geminiRequestsToday := 1, geminiRequestsMonth := 1\<rparr>]
           | Some u \<Rightarrow>
               updateWhere (\<lambda>u. userId_au u = userId)
                 (\<lambda>u. u\<lparr>geminiRequestsToday := geminiRequestsToday u + 1,
                        geminiRequestsMonth := geminiRequestsMonth u + 1\<rparr>) (apiUsage s)))
   \<and> (faults s = [] \<and> find (\<lambda>u. userId_au u = userId) (apiUsage s) = None \<longrightarrow>
        find (\<lambda>u. userId_au u = userId)
          (apiUsage (snd (recordOpenAIRequest env userId
             (snd (recordOpenAIRequest env userId (snd (recordOpenAIRequest env userId s)))))))
          = Some ((ApiUsage_defaults env userId)
                    \<lparr>openaiRequestsToday := 3, openaiRequestsMonth := 3\<rparr>)
        \<and> find (\<lambda>u. userId_au u = userId)
          (apiUsage (snd (recordGeminiRequest env userId
             (snd (recordGeminiRequest env userId (snd (recordGeminiRequest env userId s)))))))
          = Some ((ApiUsage_defaults env userId)
                    \<lparr>geminiRequestsToday := 3, geminiRequestsMonth := 3\<rparr>))"
proof -
  have d: "userId_au (ApiUsage_defaults env userId) = userId"
    by (simp add: ApiUsage_defaults_def)
  have three: "faults s = [] \<Longrightarrow> find (\<lambda>u. userId_au u = userId) (apiUsage s) = None \<Longrightarrow>
        find (\<lambda>u. userId_au u = userId)
          (apiUsage (snd (recordOpenAIRequest env userId
             (snd (recordOpenAIRequest env userId (snd (recordOpenAIRequest env userId s)))))))
          = Some ((ApiUsage_defaults env userId)
                    \<lparr>openaiRequestsToday := 3, openaiRequestsMonth := 3\<rparr>)"
    by (simp add: recordOpenAIRequest_healthy find_snoc d find_updateWhere updateWhere_snoc
        updateWhere_none ApiUsage_defaults_def)
  have three': "faults s = [] \<Longrightarrow> find (\<lambda>u. userId_au u = userId) (apiUsage s) = None \<Longrightarrow>
        find (\<lambda>u. userId_au u = userId)
          (apiUsage (snd (recordGeminiRequest env userId
             (snd (recordGeminiRequest env userId (snd (recordGeminiRequest env userId s)))))))
          = Some ((ApiUsage_defaults env userId)
                    \<lparr>geminiRequestsToday := 3, geminiRequestsMonth := 3\<rparr>)"
    by (simp add: recordGeminiRequest_healthy find_snoc d find_updateWhere updateWhere_snoc
        updateWhere_none ApiUsage_defaults_def)
  show ?thesis
    using three three'
    by (simp add: record_never_raises recordOpenAIRequest_healthy recordGeminiRequest_healthy)
qed

theorem recordRequest_increments_witness:
  "map (\<lambda>u. (openaiRequestsToday u, openaiRequestsMonth u, geminiRequestsToday u, geminiRequestsMonth u))
     (apiUsage (snd (recordOpenAIRequest env_feb1 ''u''
        (snd (recordOpenAIRequest env_feb1 ''u''
           (snd (recordOpenAIRequest env_feb1 ''u'' (db_usage [] []))))))))
     = [(3, 3, 0, 0)]
   \<and> recordGeminiRequest env_feb1 ''u''
        (db_usage [usage_row ''u'' 4 7 feb1] [Some (Error ''database is locked'')])
     = (Inr (), db_usage [usage_row ''u'' 4 7 feb1] [])
   \<and> apiUsage (snd (recordGeminiRequest env_feb1 ''u'' (db_usage [usage_row ''u'' 4 7 feb1] [])))
     = [(usage_row ''u'' 4 7 feb1)\<lparr>geminiRequestsToday := 5, geminiRequestsMonth := 8\<rparr>]"
proof -
  have a: "recordGeminiRequest env_feb1 ''u''
        (db_usage [usage_row ''u'' 4 7 feb1] [Some (Error ''database is locked'')])
     = (Inr (), db_usage [usage_row ''u'' 4 7 feb1] [])"
    by (simp add: recordGeminiRequest_def recordGeminiRequest_try_def try_catch_def andThen_def
        prisma_apiUsage_upsert_def storage_def db_usage_def ret_def)
  have b: "apiUsage (snd (recordOpenAIRequest env_feb1 ''u''
        (snd (recordOpenAIRequest env_feb1 ''u''
           (snd (recordOpenAIRequest env_feb1 ''u'' (db_usage [] [])))))))
     = [(ApiUsage_defaults env_feb1 ''u'')\<lparr>openaiRequestsToday := 3, openaiRequestsMonth := 3\<rparr>]"
    by (simp add: recordOpenAIRequest_healthy db_usage_def ApiUsage_defaults_def updateWhere_def)
  show ?thesis
    using recordRequest_increments [of env_feb1 "''u''" "db_usage [] []"]
      recordRequest_increments [of env_feb1 "''u''" "db_usage [usage_row ''u'' 4 7 feb1] []"]
      a b
    by (simp add: db_usage_def usage_row_def updateWhere_def ApiUsage_defaults_def)
qed


section \<open>Properties of the orchestrator\<close>

lemma wp_ret [simp]: "wp (ret x) Q E s = Q x s"
  by (simp add: wp_def ret_def)

lemma wp_throw [simp]: "wp (throw e) Q E s = E e s"
  by (simp add: wp_def throw_def)

lemma wp_andThen [simp]: "wp (andThen m f) Q E s = wp m (\<lambda>x. wp (f x) Q E) E s"
  by (simp add: wp_def andThen_def split: prod.splits sum.splits)

lemma wp_try_catch [simp]: "wp (try_catch m h) Q E s = wp m Q (\<lambda>e. wp (h e) Q E) s"
  by (simp add: wp_def try_catch_def split: prod.splits sum.splits)

lemma wp_external [simp]:
  "wp (external r) Q E s = (case r of Inl e \<Rightarrow> E e s | Inr x \<Rightarrow> Q x s)"
  by (simp add: wp_def external_def split: sum.splits)

lemma wp_trivial [simp]: "wp m (\<lambda>x s. True) (\<lambda>e s. True) s"
  by (simp add: wp_def split: prod.splits sum.splits)

lemma wp_run: "wp m Q E s \<Longrightarrow> m s = (Inr x, s') \<Longrightarrow> Q x s'"
  by (simp add: wp_def)

lemma wp_session_update:
  "faults s = [] \<Longrightarrow>
   wp (prisma_researchSession_update sid f) Q E s =
     (case find (\<lambda>r. id_rs r = sid) (researchSession s) of
        None \<Rightarrow> E (Error ''Record to update not found.'') s
      | Some r \<Rightarrow>
          Q (f r)
            (s\<lparr>researchSession := updateWhere (\<lambda>r. id_rs r = sid) f (researchSession s),
              journal := journal s @ [f r]\<rparr>))"
  by (simp add: wp_def prisma_researchSession_update_def storage_healthy split: option.splits)

lemma wp_session_update_user:
  "faults s = [] \<Longrightarrow>
   wp (prisma_researchSession_update_user sid f) Q E s =
     (case find (\<lambda>r. id_rs r = sid) (researchSession s) of
        None \<Rightarrow> E (Error ''Record to update not found.'') s
      | Some r \<Rightarrow>
          Q (f r, find (\<lambda>u. id_u u = userId_rs (f r)) (user s))
            (s\<lparr>researchSession := updateWhere (\<lambda>r. id_rs r = sid) f (researchSession s),
              journal := journal s @ [f r]\<rparr>))"
  by (simp add: wp_def prisma_researchSession_update_user_def storage_healthy split: option.splits)

lemma wp_session_findUnique_user:
  "faults s = [] \<Longrightarrow>
   wp (prisma_researchSession_findUnique_user sid) Q E s =
     Q (map_option (\<lambda>r. (r, find (\<lambda>u. id_u u = userId_rs r) (user s)))
          (find (\<lambda>r. id_rs r = sid) (researchSession s))) s"
  by (simp add: wp_def prisma_researchSession_findUnique_user_def storage_healthy)

lemma canMakeOpenAIRequest_verdict:
  "faults s = [] \<Longrightarrow>
   canMakeOpenAIRequest env userId s =
     (Inr (openaiVerdict env userId (apiUsage s)),
      s\<lparr>apiUsage := rolledTable env userId (apiUsage s)\<rparr>)"
  by (simp add: canMakeOpenAIRequest_healthy openaiVerdict_def Let_def)

lemma canMakeGeminiRequest_verdict:
  "faults s = [] \<Longrightarrow>
   canMakeGeminiRequest env userId s =
     (Inr (geminiVerdict env userId (apiUsage s)),
      s\<lparr>apiUsage := rolledTable env userId (apiUsage s)\<rparr>)"
  by (simp add: canMakeGeminiRequest_healthy geminiVerdict_def Let_def)

lemma wp_canMakeOpenAIRequest:
  "faults s = [] \<Longrightarrow>
   wp (canMakeOpenAIRequest env userId) Q E s =
     Q (openaiVerdict env userId (apiUsage s))
       (s\<lparr>apiUsage := rolledTable env userId (apiUsage s)\<rparr>)"
  by (simp add: wp_def canMakeOpenAIRequest_verdict)

lemma wp_canMakeGeminiRequest:
  "faults s = [] \<Longrightarrow>
   wp (canMakeGeminiRequest env userId) Q E s =
     Q (geminiVerdict env userId (apiUsage s))
       (s\<lparr>apiUsage := rolledTable env userId (apiUsage s)\<rparr>)"
  by (simp add: wp_def canMakeGeminiRequest_verdict)

lemma recordOpenAIRequest_table:
  "faults s = [] \<Longrightarrow>
   recordOpenAIRequest env userId s = (Inr (), s\<lparr>apiUsage := recordedOpenAI env userId (apiUsage s)\<rparr>)"
  by (simp add: recordOpenAIRequest_healthy recordedOpenAI_def)

lemma recordGeminiRequest_table:
  "faults s = [] \<Longrightarrow>
   recordGeminiRequest env userId s = (Inr (), s\<lparr>apiUsage := recordedGemini env userId (apiUsage s)\<rparr>)"
  by (simp add: recordGeminiRequest_healthy recordedGemini_def)

lemma wp_recordOpenAIRequest:
  "faults s = [] \<Longrightarrow>
   wp (recordOpenAIRequest env userId) Q E s
     = Q () (s\<lparr>apiUsage := recordedOpenAI env userId (apiUsage s)\<rparr>)"
  by (simp add: wp_def recordOpenAIRequest_table)

lemma wp_fanOut:
  assumes "faults s = []"
  shows "wp (fanOut env userId prompt) Q E s =
     Q (case startDeepResearch env prompt of
          Inl e \<Rightarrow> Inl e | Inr r \<Rightarrow> Inr (orElse (result r) []),
        research env prompt)
       (s\<lparr>apiUsage := recorded env userId prompt (apiUsage s)\<rparr>)"
  using assms
  by (cases "startDeepResearch env prompt"; cases "research env prompt")
     (simp_all add: wp_def fanOut_def allSettled2_def andThen_def external_def ret_def
       recordOpenAIRequest_table recordGeminiRequest_table recorded_def)

lemma settled_openaiText:
  "(case (case startDeepResearch env prompt of
            Inl e \<Rightarrow> Inl e | Inr r \<Rightarrow> Inr (orElse (result r) [])) of
      Inl e \<Rightarrow> ''Research failed'' | Inr v \<Rightarrow> v) = openaiText_of env prompt"
  by (simp add: openaiText_of_def split: sum.splits)

lemma settled_geminiText:
  "(case research env prompt of Inl e \<Rightarrow> ''Research failed'' | Inr v \<Rightarrow> v)
     = geminiText_of env prompt"
  by (simp add: geminiText_of_def split: sum.splits)

lemmas wp_healthy = wp_session_update wp_session_update_user wp_session_findUnique_user
  wp_canMakeOpenAIRequest wp_canMakeGeminiRequest wp_recordOpenAIRequest wp_fanOut

lemma find_id_updateWhere:
  assumes "\<And>r. id_rs (f r) = id_rs r"
  shows "find (\<lambda>r. id_rs r = sid) (updateWhere (\<lambda>r. id_rs r = sid) f rows)
     = map_option f (find (\<lambda>r. id_rs r = sid) rows)"
  using assms by (simp add: find_updateWhere)

lemma getTime_gt_irrefl: "\<not> getTime_gt d d"
  by (simp add: getTime_gt_def)

lemma rollover_again:
  "rollover nowd (rollover nowd u0 u0) r = r"
  by (simp add: rollover_def Let_def setHours0_def getTime_gt_def)

lemma rolledTable_idem:
  "rolledTable env userId (rolledTable env userId table) = rolledTable env userId table"
proof -
  let ?u1 = "rollover (now env) (loaded env userId table) (loaded env userId table)"
  have f: "find (\<lambda>u. userId_au u = userId) (rolledTable env userId table) = Some ?u1"
    by (rule find_rolledTable)
  then have l: "loaded env userId (rolledTable env userId table) = ?u1"
    by (simp add: loaded_def)
  have "rolledTable env userId (rolledTable env userId table)
          = updateWhere (\<lambda>u. userId_au u = userId) (rollover (now env) ?u1)
              (rolledTable env userId table)"
    by (subst rolledTable_def) (simp add: f l)
  also have "rollover (now env) ?u1 = (\<lambda>r. r)"
    by (rule ext) (rule rollover_again)
  finally show ?thesis by (simp add: updateWhere_id)
qed

lemma find_recordedOpenAI_rolled:
  "find (\<lambda>u. userId_au u = userId) (recordedOpenAI env userId (rolledTable env userId table))
     = Some (let usage = rollover (now env) (loaded env userId table) (loaded env userId table)
             in usage\<lparr>openaiRequestsToday := openaiRequestsToday usage + 1,
                      openaiRequestsMonth := openaiRequestsMonth usage + 1\<rparr>)"
  by (simp add: recordedOpenAI_def find_rolledTable find_updateWhere Let_def)

lemma find_recordedGemini_rolled:
  "find (\<lambda>u. userId_au u = userId) (recordedGemini env userId (rolledTable env userId table))
     = Some (let usage = rollover (now env) (loaded env userId table) (loaded env userId table)
             in usage\<lparr>geminiRequestsToday := geminiRequestsToday usage + 1,
                      geminiRequestsMonth := geminiRequestsMonth usage + 1\<rparr>)"
  by (simp add: recordedGemini_def find_rolledTable find_updateWhere Let_def)

lemma wp_unit:
  "wp m (\<lambda>x. Q) (\<lambda>e s. False) s \<Longrightarrow> m s = (Inr (), snd (m s)) \<and> Q (snd (m s))"
  for m :: "unit io"
  by (cases "m s"; cases "fst (m s)") (auto simp: wp_def)

lemma wp_session_create:
  "faults s = [] \<Longrightarrow>
   wp (prisma_researchSession_create env userId title initialPrompt st) Q E s =
     (let row = \<lparr>id_rs = cuid env (created s), userId_rs = userId, title_rs = title,
                  initialPrompt_rs = initialPrompt, refinedPrompt_rs = None, status_rs = st,
                  openaiResult_rs = None, geminiResult_rs = None, pdfUrl_rs = None,
                  pdfGeneratedAt_rs = None, emailSentAt_rs = None, errorMessage_rs = None,
                  createdAt_rs = now env\<rparr>
      in Q row (s\<lparr>researchSession := researchSession s @ [row], created := Suc (created s),
                  journal := journal s @ [row]\<rparr>))"
  by (simp add: wp_def prisma_researchSession_create_def storage_healthy Let_def)

lemma wp_refinement_createMany:
  "faults s = [] \<Longrightarrow>
   wp (prisma_refinement_createMany env data) Q E s =
     Q () (s\<lparr>refinement :=
            refinement s @
            map (\<lambda>(n, (researchSessionId, question, questionIndex)).
                   \<lparr>id_rf = cuid env n, researchSessionId_rf = researchSessionId,
                    question_rf = question, answer_rf = None,
                    questionIndex_rf = questionIndex, answeredAt_rf = None\<rparr>)
              (zip [created s ..< created s + length data] data),
          created := created s + length data\<rparr>)"
  by (simp add: wp_def prisma_refinement_createMany_def storage_healthy)

lemma wp_session_findFirst:
  "faults s = [] \<Longrightarrow>
   wp (prisma_researchSession_findFirst sid uid) Q E s =
     Q (map_option (\<lambda>r. (r, filter (\<lambda>q. researchSessionId_rf q = id_rs r) (refinement s)))
          (find (\<lambda>r. id_rs r = sid \<and> userId_rs r = uid) (researchSession s))) s"
  by (simp add: wp_def prisma_researchSession_findFirst_def storage_healthy)

lemma wp_session_findUnique_refinements:
  "faults s = [] \<Longrightarrow>
   wp (prisma_researchSession_findUnique_refinements sid) Q E s =
     Q (map_option (\<lambda>r. (r, filter (\<lambda>q. researchSessionId_rf q = id_rs r) (refinement s)))
          (find (\<lambda>r. id_rs r = sid) (researchSession s))) s"
  by (simp add: wp_def prisma_researchSession_findUnique_refinements_def storage_healthy)

lemma wp_refinement_update:
  "faults s = [] \<Longrightarrow>
   wp (prisma_refinement_update rid f) Q E s =
     (case find (\<lambda>q. id_rf q = rid) (refinement s) of
        None \<Rightarrow> E (Error ''Record to update not found.'') s
      | Some q \<Rightarrow>
          Q (f q) (s\<lparr>refinement := updateWhere (\<lambda>q. id_rf q = rid) f (refinement s)\<rparr>))"
  by (simp add: wp_def prisma_refinement_update_def storage_healthy split: option.splits)

lemmas wp_healthy2 = wp_healthy wp_session_create wp_refinement_createMany wp_session_findFirst
  wp_session_findUnique_refinements wp_refinement_update

lemmas example_defs = db_sessions_def session_row_def refinement_row_def env_responding_def
  response_empty_def response_direct_def
  API_LIMITS_default_def feb1_def jan31_def

lemmas eval_defs = updateWhere_def Let_def openaiVerdict_def geminiVerdict_def rolledTable_def
  loaded_def rollover_def ceilings_def ApiUsage_defaults_def setHours0_def getTime_gt_def
  recorded_def recordedOpenAI_def recordedGemini_def orElse_def orUndefined_def

lemma digits_0: "digits 0 = ''0''"
  by (simp add: digits.simps [of 0])

lemma wp_post:
  "wp m Q (\<lambda>e s. False) s \<Longrightarrow> \<exists>x. m s = (Inr x, snd (m s)) \<and> Q x (snd (m s))"
  by (cases "m s"; cases "fst (m s)") (auto simp: wp_def)

subsection \<open>The branches of \<open>startSession\<close>\<close>

text \<open>
  Every reply of the client that asks for refinement carries an array of questions, which
  may be empty.
\<close>

lemma client_replies_carry_questions:
  "refinementQuestions (RealOpenAIClient_parsed parsed_requiresRefinement
      parsed_refinementQuestions parsed_result) \<noteq> None"
  "refinementQuestions (RealOpenAIClient_questions questions) \<noteq> None"
  "\<not> requiresRefinement (RealOpenAIClient_content content)"
  "requiresRefinement (MockOpenAIClient_startDeepResearch refined report)
     = (refinementQuestions (MockOpenAIClient_startDeepResearch refined report) \<noteq> None)"
  by (simp_all add: RealOpenAIClient_parsed_def RealOpenAIClient_questions_def
        RealOpenAIClient_content_def MockOpenAIClient_startDeepResearch_def)

lemma example_replies:
  "response_empty = RealOpenAIClient_parsed None None None"
  "response_direct = RealOpenAIClient_content ''R''"
  "response_no_questions
     = \<lparr>refinementQuestions = Some [], result = None, requiresRefinement = True\<rparr>"
  by (simp_all add: response_empty_def response_direct_def response_no_questions_def
        RealOpenAIClient_parsed_def RealOpenAIClient_content_def)

lemma zip_rows:
  "map (\<lambda>(n, (sid, question, questionIndex)). F n sid question questionIndex)
     (zip ns (map (\<lambda>q. (sid0, question_q q, index_q q)) questions))
   = map (\<lambda>(n, q). F n sid0 (question_q q) (index_q q)) (zip ns questions)"
  by (simp add: zip_map2 case_prod_unfold comp_def)

lemma startSession_wp:
  assumes "faults s = []"
    and "allowed (openaiVerdict env userId (apiUsage s))"
    and "startDeepResearch env initialPrompt = Inr response"
    and "requiresRefinement response \<and> refinementQuestions response \<noteq> None
         \<or> \<not> truthy (result response)"
  shows "wp (startSession env userId title initialPrompt)
     (\<lambda>session s'. id_rs session = cuid env (created s) \<and> status_rs session = CREATED
        \<and> (\<not> requiresRefinement response \<or> refinementQuestions response = None \<longrightarrow>
             researchSession s' = researchSession s @ [session]
             \<and> journal s' = journal s @ [session]
             \<and> refinement s' = refinement s)
        \<and> (\<forall>questions.
             requiresRefinement response \<and> refinementQuestions response = Some questions \<longrightarrow>
             (\<exists>row. find (\<lambda>r. id_rs r = id_rs session) (researchSession s') = Some row
                    \<and> status_rs row = AWAITING_REFINEMENTS)
             \<and> map status_rs (journal s')
                 = map status_rs (journal s) @ [CREATED, AWAITING_REFINEMENTS]
             \<and> refinement s'
                 = refinement s @
                   map (\<lambda>(n, q).
                          \<lparr>id_rf = cuid env n, researchSessionId_rf = id_rs session,
                           question_rf = question_q q, answer_rf = None,
                           questionIndex_rf = index_q q, answeredAt_rf = None\<rparr>)
                     (zip [Suc (created s) ..< Suc (created s) + length questions] questions)))
     (\<lambda>e s'. False) s"
  using assms
  unfolding startSession_def startSession_try_def
  by (auto simp add: wp_healthy2 Let_def find_snoc find_id_updateWhere zip_rows
        split: option.splits)

text \<open>
  C10, as amended. With a store that does not fail, a check that allows the call and a
  response that does not lead to the direct research path, \<open>startSession\<close> returns the
  session it created, with its generated id and in status \<open>CREATED\<close> as it was
  created.

  If \<open>requiresRefinement\<close> is false or the response has no \<open>refinementQuestions\<close>
  property (and so, by the assumption, no result), the session stays \<open>CREATED\<close> in the
  database: the only write to the session table is the creation, and no refinement is
  created.

  If \<open>requiresRefinement\<close> is true and \<open>refinementQuestions\<close> is an array, with or
  without a result, one unanswered refinement is created for each question, none when the
  array is empty, and the status of the session is updated to \<open>AWAITING_REFINEMENTS\<close>.
\<close>

theorem startSession_CREATED_or_AWAITING_REFINEMENTS:
  assumes "faults s = []"
    and "canMakeOpenAIRequest env userId s = (Inr verdict, s1)" and "allowed verdict"
    and "startDeepResearch env initialPrompt = Inr response"
    and "requiresRefinement response \<and> refinementQuestions response \<noteq> None
         \<or> \<not> truthy (result response)"
  shows "\<exists>session s'.
     startSession env userId title initialPrompt s = (Inr session, s')
     \<and> id_rs session = cuid env (created s)
     \<and> status_rs session = CREATED
     \<and> (\<not> requiresRefinement response \<or> refinementQuestions response = None \<longrightarrow>
          researchSession s' = researchSession s @ [session]
          \<and> journal s' = journal s @ [session]
          \<and> refinement s' = refinement s)
     \<and> (\<forall>questions.
          requiresRefinement response \<and> refinementQuestions response = Some questions \<longrightarrow>
          (\<exists>row. find (\<lambda>r. id_rs r = id_rs session) (researchSession s') = Some row
                 \<and> status_rs row = AWAITING_REFINEMENTS)
          \<and> map status_rs (journal s')
              = map status_rs (journal s) @ [CREATED, AWAITING_REFINEMENTS]
          \<and> refinement s'
              = refinement s @
                map (\<lambda>(n, q).
                       \<lparr>id_rf = cuid env n, researchSessionId_rf = id_rs session,
                        question_rf = question_q q, answer_rf = None,
                        questionIndex_rf = index_q q, answeredAt_rf = None\<rparr>)
                  (zip [Suc (created s) ..< Suc (created s) + length questions] questions))"
proof -
  have "allowed (openaiVerdict env userId (apiUsage s))"
    using assms(1,2,3) by (simp add: canMakeOpenAIRequest_verdict)
  from wp_post [OF startSession_wp [OF assms(1) this assms(4,5), of title]]
  show ?thesis
    by (elim exE) (rule exI, rule exI, assumption)
qed

lemma digits_1: "digits (Suc 0) = ''1''"
  by (simp add: digits.simps [of "Suc 0"])

text \<open>
  The witness of C10: a JSON reply without any of the three properties (no refinement, an
  empty array of questions, no result) leaves the session \<open>CREATED\<close>; a reply with
  one question creates one refinement and moves the session to
  \<open>AWAITING_REFINEMENTS\<close>.
\<close>

theorem startSession_CREATED_or_AWAITING_REFINEMENTS_witness:
  "faults (db_sessions [] []) = []
   \<and> startDeepResearch (env_responding response_empty) ''X'' = Inr response_empty
   \<and> \<not> truthy (result response_empty)
   \<and> \<not> requiresRefinement response_empty
   \<and> map_sum message status_rs (fst (startSession (env_responding response_empty)
         ''u'' ''T'' ''X'' (db_sessions [] []))) = Inr CREATED
   \<and> map status_rs (researchSession (snd (startSession (env_responding response_empty)
         ''u'' ''T'' ''X'' (db_sessions [] [])))) = [CREATED]
   \<and> map status_rs (journal (snd (startSession (env_responding response_empty)
         ''u'' ''T'' ''X'' (db_sessions [] [])))) = [CREATED]
   \<and> refinement (snd (startSession (env_responding response_empty)
         ''u'' ''T'' ''X'' (db_sessions [] []))) = []
   \<and> startDeepResearch (env_responding response_one_question) ''X'' = Inr response_one_question
   \<and> requiresRefinement response_one_question
   \<and> map_sum message status_rs (fst (startSession (env_responding response_one_question)
         ''u'' ''T'' ''X'' (db_sessions [] []))) = Inr CREATED
   \<and> map_option status_rs
        (find (\<lambda>r. id_rs r = ''id0'')
           (researchSession (snd (startSession (env_responding response_one_question)
              ''u'' ''T'' ''X'' (db_sessions [] [])))))
        = Some AWAITING_REFINEMENTS
   \<and> map status_rs (journal (snd (startSession (env_responding response_one_question)
         ''u'' ''T'' ''X'' (db_sessions [] [])))) = [CREATED, AWAITING_REFINEMENTS]
   \<and> refinement (snd (startSession (env_responding response_one_question)
         ''u'' ''T'' ''X'' (db_sessions [] [])))
        = [\<lparr>id_rf = ''id1'', researchSessionId_rf = ''id0'', question_rf = ''Which period?'',
            answer_rf = None, questionIndex_rf = 0, answeredAt_rf = None\<rparr>]"
proof -
  let ?s = "db_sessions [] []"
  let ?q = "\<lparr>question_q = ''Which period?'', index_q = 0\<rparr>"
  have h: "faults ?s = []" by (simp add: db_sessions_def)
  have v: "canMakeOpenAIRequest env ''u'' ?s
             = (Inr (openaiVerdict env ''u'' (apiUsage ?s)),
                ?s\<lparr>apiUsage := rolledTable env ''u'' (apiUsage ?s)\<rparr>)" for env
    using h by (rule canMakeOpenAIRequest_verdict)
  have a: "allowed (openaiVerdict (env_responding response) ''u'' (apiUsage ?s))" for response
    by (simp add: example_defs eval_defs)
  have r: "startDeepResearch (env_responding response) ''X'' = Inr response" for response
    by (simp add: env_responding_def)
  have c: "created ?s = 0" "researchSession ?s = []" "journal ?s = []" "refinement ?s = []"
    by (simp_all add: db_sessions_def)
  have id: "cuid (env_responding response) n = ''id'' @ digits n" for response n
    by (simp add: env_responding_def)
  have t: "\<not> truthy (result response_empty)" "\<not> requiresRefinement response_empty"
    by (simp_all add: response_empty_def)
  have q: "requiresRefinement response_one_question"
    "refinementQuestions response_one_question = Some [?q]"
    by (simp_all add: response_one_question_def RealOpenAIClient_questions_def)
  from startSession_CREATED_or_AWAITING_REFINEMENTS
         [OF h v a r disjI2 [OF t(1)], of "''T''"]
  obtain session s' where
    "startSession (env_responding response_empty) ''u'' ''T'' ''X'' ?s = (Inr session, s')"
    "status_rs session = CREATED"
    "researchSession s' = researchSession ?s @ [session]"
    "journal s' = journal ?s @ [session]"
    "refinement s' = refinement ?s"
    using t by blast
  then have stays: "map_sum message status_rs (fst (startSession (env_responding response_empty)
         ''u'' ''T'' ''X'' ?s)) = Inr CREATED
   \<and> map status_rs (researchSession (snd (startSession (env_responding response_empty)
         ''u'' ''T'' ''X'' ?s))) = [CREATED]
   \<and> map status_rs (journal (snd (startSession (env_responding response_empty)
         ''u'' ''T'' ''X'' ?s))) = [CREATED]
   \<and> refinement (snd (startSession (env_responding response_empty)
         ''u'' ''T'' ''X'' ?s)) = []"
    by (simp add: c)
  have b: "requiresRefinement response_one_question
           \<and> refinementQuestions response_one_question \<noteq> None"
    by (simp add: q)
  from startSession_CREATED_or_AWAITING_REFINEMENTS
         [OF h v a r disjI1 [OF b], of "''T''"]
  obtain session s' row where
    "startSession (env_responding response_one_question) ''u'' ''T'' ''X'' ?s = (Inr session, s')"
    "id_rs session = cuid (env_responding response_one_question) (created ?s)"
    "status_rs session = CREATED"
    "find (\<lambda>r. id_rs r = id_rs session) (researchSession s') = Some row"
    "status_rs row = AWAITING_REFINEMENTS"
    "map status_rs (journal s') = map status_rs (journal ?s) @ [CREATED, AWAITING_REFINEMENTS]"
    "refinement s' = refinement ?s @
                map (\<lambda>(n, q).
                       \<lparr>id_rf = cuid (env_responding response_one_question) n,
                        researchSessionId_rf = id_rs session,
                        question_rf = question_q q, answer_rf = None,
                        questionIndex_rf = index_q q, answeredAt_rf = None\<rparr>)
                  (zip [Suc (created ?s) ..< Suc (created ?s) + length [?q]] [?q])"
    using q by blast
  then have moves: "map_sum message status_rs (fst (startSession (env_responding response_one_question)
         ''u'' ''T'' ''X'' ?s)) = Inr CREATED
   \<and> map_option status_rs
        (find (\<lambda>r. id_rs r = ''id0'')
           (researchSession (snd (startSession (env_responding response_one_question)
              ''u'' ''T'' ''X'' ?s))))
        = Some AWAITING_REFINEMENTS
   \<and> map status_rs (journal (snd (startSession (env_responding response_one_question)
         ''u'' ''T'' ''X'' ?s))) = [CREATED, AWAITING_REFINEMENTS]
   \<and> refinement (snd (startSession (env_responding response_one_question)
         ''u'' ''T'' ''X'' ?s))
        = [\<lparr>id_rf = ''id1'', researchSessionId_rf = ''id0'', question_rf = ''Which period?'',
            answer_rf = None, questionIndex_rf = 0, answeredAt_rf = None\<rparr>]"
    by (simp add: c id digits_0 digits_1)
  show ?thesis
    using h r t q(1) stays moves by simp
qed

lemma run_no_questions:
  "wp (startSession (env_responding response_no_questions) ''u'' ''T'' ''X'')
     (\<lambda>session s'.
        status_rs session = CREATED
        \<and> map status_rs (researchSession s') = [AWAITING_REFINEMENTS]
        \<and> map status_rs (journal s') = [CREATED, AWAITING_REFINEMENTS]
        \<and> refinement s' = [])
     (\<lambda>e s'. False)
     (db_sessions [] [])"
  unfolding startSession_def startSession_try_def
  by (simp add: wp_healthy2 example_defs eval_defs digits_0 response_no_questions_def
        RealOpenAIClient_parsed_def)

text \<open>
  C10, as stated, fails. A JSON reply with \<open>requiresRefinement\<close> true and neither
  questions nor a result reaches \<open>startSession\<close> with an empty array of questions. The
  first branch is taken: no refinement is created, but the status of the session is updated
  to \<open>AWAITING_REFINEMENTS\<close>.
\<close>

theorem startSession_empty_questions_counterexample:
  "response_no_questions = RealOpenAIClient_parsed (Some True) None None
   \<and> requiresRefinement response_no_questions
   \<and> refinementQuestions response_no_questions = Some []
   \<and> result response_no_questions = None
   \<and> startDeepResearch (env_responding response_no_questions) ''X''
       = Inr response_no_questions
   \<and> map_sum message status_rs (fst (startSession (env_responding response_no_questions)
         ''u'' ''T'' ''X'' (db_sessions [] []))) = Inr CREATED
   \<and> map status_rs (researchSession (snd (startSession
         (env_responding response_no_questions) ''u'' ''T'' ''X'' (db_sessions [] []))))
       = [AWAITING_REFINEMENTS]
   \<and> map status_rs (journal (snd (startSession
         (env_responding response_no_questions) ''u'' ''T'' ''X'' (db_sessions [] []))))
       = [CREATED, AWAITING_REFINEMENTS]
   \<and> refinement (snd (startSession
         (env_responding response_no_questions) ''u'' ''T'' ''X'' (db_sessions [] []))) = []"
proof -
  let ?run = "startSession (env_responding response_no_questions) ''u'' ''T'' ''X''
                (db_sessions [] [])"
  note post = wp_post [OF run_no_questions]
  from post obtain session where run: "?run = (Inr session, snd ?run)"
    and stored: "status_rs session = CREATED"
      "map status_rs (researchSession (snd ?run)) = [AWAITING_REFINEMENTS]"
      "map status_rs (journal (snd ?run)) = [CREATED, AWAITING_REFINEMENTS]"
      "refinement (snd ?run) = []"
    by (elim exE conjE)
  have "fst ?run = Inr session"
    by (subst run) simp
  then have returned: "map_sum message status_rs (fst ?run) = Inr CREATED"
    by (simp only: stored(1) map_sum.simps)
  have reply: "response_no_questions = RealOpenAIClient_parsed (Some True) None None"
    "requiresRefinement response_no_questions"
    "refinementQuestions response_no_questions = Some []"
    "result response_no_questions = None"
    "startDeepResearch (env_responding response_no_questions) ''X''
         = Inr response_no_questions"
    by (simp_all add: response_no_questions_def RealOpenAIClient_parsed_def env_responding_def)
  show ?thesis
    by (intro conjI reply returned stored)
qed

subsection \<open>The refined prompt is written after the status\<close>

lemma keeps_ret: "keeps I (ret x)"
  by (simp add: keeps_def ret_def)

lemma keeps_throw: "keeps I (throw e)"
  by (simp add: keeps_def throw_def)

lemma keeps_external: "keeps I (external r)"
  by (simp add: keeps_def external_def)

lemma keeps_andThen:
  "keeps I m \<Longrightarrow> (\<And>x. keeps I (f x)) \<Longrightarrow> keeps I (andThen m f)"
  unfolding keeps_def andThen_def
  by (auto split: prod.splits sum.splits)

lemma keeps_try_catch:
  "keeps I m \<Longrightarrow> (\<And>e. keeps I (h e)) \<Longrightarrow> keeps I (try_catch m h)"
  unfolding keeps_def try_catch_def
  by (auto split: prod.splits sum.splits)

lemma keeps_allSettled2:
  "keeps I p \<Longrightarrow> keeps I q \<Longrightarrow> keeps I (allSettled2 p q)"
  unfolding keeps_def allSettled2_def
  by (auto split: prod.splits)

lemma keeps_if: "keeps I a \<Longrightarrow> keeps I b \<Longrightarrow> keeps I (if c then a else b)"
  by simp

lemma keeps_case_option:
  "keeps I a \<Longrightarrow> (\<And>x. keeps I (b x)) \<Longrightarrow> keeps I (case v of None \<Rightarrow> a | Some x \<Rightarrow> b x)"
  by (cases v) simp_all

lemma keeps_case_prod:
  "(\<And>a b. keeps I (f a b)) \<Longrightarrow> keeps I (case p of (a, b) \<Rightarrow> f a b)"
  by (cases p) simp

lemma keeps_storage:
  assumes "\<And>s fs. I s \<Longrightarrow> I (s\<lparr>faults := fs\<rparr>)" and "keeps I op"
  shows "keeps I (storage op)"
  using assms unfolding keeps_def storage_def
  by (auto split: list.splits option.splits)





lemmas keeps_structure = keeps_andThen keeps_try_catch keeps_allSettled2 keeps_ret keeps_throw
  keeps_external keeps_if keeps_case_option keeps_case_prod
































subsection \<open>A provider fails in \<open>runResearch\<close>\<close>

lemma runResearch_try_parts:
  "runResearch_try env sessionId prompt =
     andThen (prisma_researchSession_findUnique_user sessionId) (\<lambda>sessionData.
     case sessionData of
       None \<Rightarrow> throw (Error ''Session not found'')
     | Some (sessionData, sessionDataUser) \<Rightarrow>
     let userId = userId_rs sessionData in
     andThen (canMakeOpenAIRequest env userId) (\<lambda>canMakeOpenAI.
     andThen (canMakeGeminiRequest env userId) (\<lambda>canMakeGemini.
     if \<not> allowed canMakeOpenAI \<or> \<not> allowed canMakeGemini then
       let errorMsg =
             join '' ''
               (map (\<lambda>x. orElse x [])
                  (filter truthy
                     [if \<not> allowed canMakeOpenAI then reason canMakeOpenAI else None,
                      if \<not> allowed canMakeGemini then reason canMakeGemini else None]))
       in
       andThen (prisma_researchSession_update sessionId
                  (\<lambda>r. r\<lparr>status_rs := FAILED,
                         errorMessage_rs :=
                           Some (orElse (Some errorMsg) ''API usage limit reached'')\<rparr>)) (\<lambda>updated.
       throw (Error (orElse (Some errorMsg) ''API usage limit reached'')))
     else
       andThen (fanOut env userId prompt) (afterFanOut env sessionId))))"
  unfolding runResearch_try_def fanOut_def afterFanOut_def ..

lemma wp_andThen_any:
  "(\<And>x s'. m s = (Inr x, s') \<Longrightarrow> wp (f x) Q (\<lambda>e s. True) s')
   \<Longrightarrow> wp (andThen m f) Q (\<lambda>e s. True) s"
  by (cases "m s"; cases "fst (m s)") (auto simp: wp_def andThen_def)

lemma keeps_wp: "keeps I m \<Longrightarrow> I s \<Longrightarrow> wp m (\<lambda>x. I) (\<lambda>e s. True) s"
  by (cases "m s"; cases "fst (m s)") (auto simp: wp_def keeps_def)

lemma fanOut_result:
  "fst (fanOut env userId prompt s) =
     Inr (case startDeepResearch env prompt of
            Inl e \<Rightarrow> Inl e | Inr r \<Rightarrow> Inr (orElse (result r) []),
          research env prompt)"
proof -
  have o: "\<And>t. fst (recordOpenAIRequest env userId t) = Inr ()"
    and g: "\<And>t. fst (recordGeminiRequest env userId t) = Inr ()"
    by (rule record_never_raises)+
  have o': "\<And>t x. fst (andThen (recordOpenAIRequest env userId) (\<lambda>recorded. ret x) t) = Inr x"
    using o by (simp add: andThen_def ret_def split: prod.splits sum.splits) (metis fst_conv sum.inject(1) sum.distinct(1))
  have g': "\<And>t x. fst (andThen (recordGeminiRequest env userId) (\<lambda>recorded. ret x) t) = Inr x"
    using g by (simp add: andThen_def ret_def split: prod.splits sum.splits) (metis fst_conv sum.inject(1) sum.distinct(1))
  show ?thesis
    by (cases "startDeepResearch env prompt"; cases "research env prompt")
       (simp_all add: fanOut_def allSettled2_def external_def andThen_def [of "\<lambda>s. (_, s)"]
          split: prod.splits, (metis o' g' fst_conv)+)
qed

lemma find_updateWhere_other:
  assumes "\<And>r. Q (f r) = Q r"
  shows "find Q (updateWhere P f rows) = map_option (\<lambda>r. if P r then f r else r) (find Q rows)"
  using assms by (induction rows) (auto simp: updateWhere_def)

lemma sessionOnly_completedAs: "sessionOnly (completedAs sid ot gt)"
  by (simp add: sessionOnly_def completedAs_def)

lemma keeps_completedAs_update:
  assumes "\<And>r. id_rs (f r) = id_rs r" "\<And>r. status_rs (f r) = status_rs r"
    "\<And>r. openaiResult_rs (f r) = openaiResult_rs r"
    "\<And>r. geminiResult_rs (f r) = geminiResult_rs r"
  shows "keeps (completedAs sid ot gt) (prisma_researchSession_update sid' f)"
  unfolding prisma_researchSession_update_def
proof (rule keeps_storage)
  show "\<And>s fs. completedAs sid ot gt s \<Longrightarrow> completedAs sid ot gt (s\<lparr>faults := fs\<rparr>)"
    by (simp add: completedAs_def)
  show "keeps (completedAs sid ot gt)
     (\<lambda>s. case find (\<lambda>r. id_rs r = sid') (researchSession s) of
             None \<Rightarrow> (Inl (Error ''Record to update not found.''), s)
           | Some r \<Rightarrow>
               (Inr (f r),
                s\<lparr>researchSession := updateWhere (\<lambda>r. id_rs r = sid') f (researchSession s),
                  journal := journal s @ [f r]\<rparr>))"
    unfolding keeps_def completedAs_def
    by (auto simp: find_updateWhere_other assms split: option.splits)
qed

lemma update_user_Inr:
  assumes "prisma_researchSession_update_user sid f s = (Inr x, s')"
    and "\<And>r. id_rs (f r) = id_rs r"
  shows "\<exists>r. fst x = f r \<and> find (\<lambda>r. id_rs r = sid) (researchSession s') = Some (f r)"
  using assms
  by (auto simp: prisma_researchSession_update_user_def storage_def find_updateWhere
      split: list.splits option.splits)

lemma afterFanOut_completes:
  "wp (afterFanOut env sid (a, b))
     (\<lambda>x. completedAs sid
            (case a of Inr v \<Rightarrow> v | Inl e \<Rightarrow> ''Research failed'')
            (case b of Inr v \<Rightarrow> v | Inl e \<Rightarrow> ''Research failed''))
     (\<lambda>e s. True) s"
  unfolding afterFanOut_def prod.case Let_def
proof (rule wp_andThen_any)
  fix x s'
  let ?o = "case a of Inr v \<Rightarrow> v | Inl e \<Rightarrow> ''Research failed''"
  let ?g = "case b of Inr v \<Rightarrow> v | Inl e \<Rightarrow> ''Research failed''"
  assume "prisma_researchSession_update_user sid
            (\<lambda>r. r\<lparr>openaiResult_rs := Some ?o, geminiResult_rs := Some ?g,
                   status_rs := COMPLETED\<rparr>) s = (Inr x, s')"
  from update_user_Inr [OF this]
  have c: "completedAs sid ?o ?g s'"
    by (auto simp: completedAs_def)
  obtain session sessionUser where x: "x = (session, sessionUser)"
    by (cases x)
  have "keeps (completedAs sid ?o ?g)
     (andThen (external (generatePDFBuffer env (title_rs session) (initialPrompt_rs session)
                            (orUndefined (refinedPrompt_rs session))
                            (orUndefined (openaiResult_rs session))
                            (orUndefined (geminiResult_rs session))
                            (createdAt_rs session))) (\<lambda>pdfBuffer.
       andThen (prisma_researchSession_update sid
                  (\<lambda>r. r\<lparr>pdfUrl_rs := Some (''/api/sessions/'' @ sid @ ''/pdf''),
                         pdfGeneratedAt_rs := Some (now env)\<rparr>)) (\<lambda>updated.
       case sessionUser of
         None \<Rightarrow> throw (Error ''Cannot read properties of null (reading email)'')
       | Some sessionUser \<Rightarrow>
           if truthy (email_u sessionUser) then
             try_catch
               (andThen (external (sendPDF env (orElse (email_u sessionUser) []) pdfBuffer
                                      (title_rs session) sid)) (\<lambda>sent.
                andThen (prisma_researchSession_update sid
                           (\<lambda>r. r\<lparr>emailSentAt_rs := Some (now env)\<rparr>)) (\<lambda>updated.
                ret ())))
               (\<lambda>emailError. ret ())
           else ret ())))"
    by (intro keeps_structure keeps_completedAs_update; simp)
  from keeps_wp [OF this c]
  show "wp (case x of (session, sessionUser) \<Rightarrow>
       andThen (external (generatePDFBuffer env (title_rs session) (initialPrompt_rs session)
                            (orUndefined (refinedPrompt_rs session))
                            (orUndefined (openaiResult_rs session))
                            (orUndefined (geminiResult_rs session))
                            (createdAt_rs session))) (\<lambda>pdfBuffer.
       andThen (prisma_researchSession_update sid
                  (\<lambda>r. r\<lparr>pdfUrl_rs := Some (''/api/sessions/'' @ sid @ ''/pdf''),
                         pdfGeneratedAt_rs := Some (now env)\<rparr>)) (\<lambda>updated.
       case sessionUser of
         None \<Rightarrow> throw (Error ''Cannot read properties of null (reading email)'')
       | Some sessionUser \<Rightarrow>
           if truthy (email_u sessionUser) then
             try_catch
               (andThen (external (sendPDF env (orElse (email_u sessionUser) []) pdfBuffer
                                      (title_rs session) sid)) (\<lambda>sent.
                andThen (prisma_researchSession_update sid
                           (\<lambda>r. r\<lparr>emailSentAt_rs := Some (now env)\<rparr>)) (\<lambda>updated.
                ret ())))
               (\<lambda>emailError. ret ())
           else ret ())))
     (\<lambda>x. completedAs sid ?o ?g) (\<lambda>e s. True) s'"
    by (simp add: x)
qed

lemma wp_throw_fun: "wp (throw e) Q E = E e"
  by (rule ext) simp

lemma runResearch_completes:
  "wp (runResearch env sid prompt)
     (\<lambda>x. completedAs sid (openaiText_of env prompt) (geminiText_of env prompt))
     (\<lambda>e s. True) s"
proof -
  have after: "\<And>userId t x t'. fanOut env userId prompt t = (Inr x, t') \<Longrightarrow>
      wp (afterFanOut env sid x)
        (\<lambda>x. completedAs sid (openaiText_of env prompt) (geminiText_of env prompt))
        (\<lambda>e s. True) t'"
  proof -
    fix userId t x t'
    assume "fanOut env userId prompt t = (Inr x, t')"
    then have "x = (case startDeepResearch env prompt of
            Inl e \<Rightarrow> Inl e | Inr r \<Rightarrow> Inr (orElse (result r) []),
          research env prompt)"
      using fanOut_result [of env userId prompt t] by simp
    then show "wp (afterFanOut env sid x)
        (\<lambda>x. completedAs sid (openaiText_of env prompt) (geminiText_of env prompt))
        (\<lambda>e s. True) t'"
      using afterFanOut_completes [of env sid
          "case startDeepResearch env prompt of
            Inl e \<Rightarrow> Inl e | Inr r \<Rightarrow> Inr (orElse (result r) [])"
          "research env prompt" t']
      by (simp add: settled_openaiText settled_geminiText)
  qed
  have handler: "\<And>h Q e. wp (andThen (h e) (\<lambda>updated. throw e)) Q (\<lambda>e s. True)
                    = (\<lambda>s::db. True)"
    by (rule ext) (simp add: wp_throw_fun)
  have rethrow: "\<And>m h Q t. wp (try_catch m (\<lambda>e. andThen (h e) (\<lambda>updated. throw e))) Q
                     (\<lambda>e s. True) t = wp m Q (\<lambda>e s. True) (t::db)"
    by (simp add: handler)
  have denied: "\<And>m e Q t. wp (andThen m (\<lambda>updated. throw e)) Q (\<lambda>e s. True) (t::db)"
    by (simp add: wp_throw_fun)
  have branch: "\<And>userId t. wp (andThen (fanOut env userId prompt) (afterFanOut env sid))
        (\<lambda>x. completedAs sid (openaiText_of env prompt) (geminiText_of env prompt))
        (\<lambda>e s. True) t"
    by (rule wp_andThen_any) (erule after)
  have body: "\<And>t. wp (runResearch_try env sid prompt)
        (\<lambda>x. completedAs sid (openaiText_of env prompt) (geminiText_of env prompt))
        (\<lambda>e s. True) t"
    unfolding runResearch_try_parts
    apply (rule wp_andThen_any)
    apply (simp split: option.splits add: Let_def del: wp_andThen)
    apply (intro allI impI)
    apply (rule wp_andThen_any)
    apply (rule wp_andThen_any)
    apply (simp add: Let_def denied branch del: wp_andThen)
    done
  show ?thesis
    unfolding runResearch_def
    by (rule wp_andThen_any) (simp only: rethrow body)
qed

lemma runResearch_returns:
  assumes h: "faults s = []"
    and session: "find (\<lambda>r. id_rs r = sid) (researchSession s) = Some session"
    and owner: "find (\<lambda>u. id_u u = userId_rs session) (user s) = Some owner"
    and ok1: "allowed (openaiVerdict env (userId_rs session) (apiUsage s))"
    and ok2: "allowed (geminiVerdict env (userId_rs session)
                 (rolledTable env (userId_rs session) (apiUsage s)))"
    and pdf: "generatePDFBuffer env (title_rs session) (initialPrompt_rs session)
                (orUndefined (refinedPrompt_rs session))
                (orUndefined (Some (openaiText_of env prompt)))
                (orUndefined (Some (geminiText_of env prompt)))
                (createdAt_rs session) = Inr pdfBuffer"
  shows "wp (runResearch env sid prompt)
           (\<lambda>x s'. apiUsage s' = recorded env (userId_rs session) prompt
                                   (rolledTable env (userId_rs session) (apiUsage s)))
           (\<lambda>e s'. False) s"
  using h session owner ok1 ok2 pdf
  unfolding runResearch_def runResearch_try_def fanOut_def [symmetric]
  by (simp add: wp_healthy find_id_updateWhere Let_def settled_openaiText settled_geminiText
       rolledTable_idem split: option.splits sum.splits)

text \<open>
  C4. First part: a run of \<open>runResearch\<close> that returns leaves the session
  \<open>COMPLETED\<close>, whatever the storage engine did on the way, and when exactly one
  provider call fails the result stored for that provider is \<open>Research failed\<close> and
  the result of the other is its output (the text of the OpenAI response, empty when the
  response has none; the string Gemini returned).

  Second part: the run does return when the rest of the orchestration succeeds, whichever
  provider fails. With a store that does not fail, the session and its owner in the
  database, the two usage checks allowing the calls and the PDF generated, \<open>runResearch\<close>
  returns without error, and the user's usage row is then the rolled-over row with one call
  recorded for the provider that succeeded and none for the one that failed. A failure to
  send the e-mail does not matter.
\<close>

theorem runResearch_one_provider_fails:
  "(\<forall>s'. runResearch env sessionId prompt s = (Inr (), s') \<longrightarrow>
      (\<exists>row.
         find (\<lambda>r. id_rs r = sessionId) (researchSession s') = Some row
         \<and> status_rs row = COMPLETED
         \<and> (\<forall>r e. startDeepResearch env prompt = Inr r \<and> research env prompt = Inl e \<longrightarrow>
               openaiResult_rs row = Some (orElse (result r) [])
               \<and> geminiResult_rs row = Some ''Research failed'')
         \<and> (\<forall>e g. startDeepResearch env prompt = Inl e \<and> research env prompt = Inr g \<longrightarrow>
               openaiResult_rs row = Some ''Research failed''
               \<and> geminiResult_rs row = Some g)))
   \<and> (faults s = []
      \<and> find (\<lambda>r. id_rs r = sessionId) (researchSession s) = Some session
      \<and> find (\<lambda>u. id_u u = userId_rs session) (user s) = Some owner
      \<and> canMakeOpenAIRequest env (userId_rs session) s = (Inr canMakeOpenAI, s1)
      \<and> allowed canMakeOpenAI
      \<and> canMakeGeminiRequest env (userId_rs session) s1 = (Inr canMakeGemini, s2)
      \<and> allowed canMakeGemini
      \<and> generatePDFBuffer env (title_rs session) (initialPrompt_rs session)
           (orUndefined (refinedPrompt_rs session))
           (orUndefined (Some (openaiText_of env prompt)))
           (orUndefined (Some (geminiText_of env prompt)))
           (createdAt_rs session) = Inr pdfBuffer
      \<longrightarrow>
      (\<exists>s' usage.
         runResearch env sessionId prompt s = (Inr (), s')
         \<and> find (\<lambda>u. userId_au u = userId_rs session) (apiUsage s') = Some usage
         \<and> (let rolled = rollover (now env) (loaded env (userId_rs session) (apiUsage s))
                           (loaded env (userId_rs session) (apiUsage s))
            in (\<forall>r e. startDeepResearch env prompt = Inr r \<and> research env prompt = Inl e \<longrightarrow>
                  usage = rolled\<lparr>openaiRequestsToday := openaiRequestsToday rolled + 1,
                                   openaiRequestsMonth := openaiRequestsMonth rolled + 1\<rparr>)
             \<and> (\<forall>e g. startDeepResearch env prompt = Inl e \<and> research env prompt = Inr g \<longrightarrow>
                  usage = rolled\<lparr>geminiRequestsToday := geminiRequestsToday rolled + 1,
                                   geminiRequestsMonth := geminiRequestsMonth rolled + 1\<rparr>))))"
proof (intro conjI allI impI)
  fix s'
  assume run: "runResearch env sessionId prompt s = (Inr (), s')"
  have "completedAs sessionId (openaiText_of env prompt) (geminiText_of env prompt) s'"
    using wp_run [OF runResearch_completes run] .
  then obtain row where row: "find (\<lambda>r. id_rs r = sessionId) (researchSession s') = Some row"
    "status_rs row = COMPLETED"
    "openaiResult_rs row = Some (openaiText_of env prompt)"
    "geminiResult_rs row = Some (geminiText_of env prompt)"
    by (auto simp: completedAs_def split: option.splits)
  have texts:
    "\<And>r e. startDeepResearch env prompt = Inr r \<Longrightarrow> research env prompt = Inl e \<Longrightarrow>
        openaiResult_rs row = Some (orElse (result r) [])
        \<and> geminiResult_rs row = Some ''Research failed''"
    "\<And>e g. startDeepResearch env prompt = Inl e \<Longrightarrow> research env prompt = Inr g \<Longrightarrow>
        openaiResult_rs row = Some ''Research failed'' \<and> geminiResult_rs row = Some g"
    by (simp_all add: row openaiText_of_def geminiText_of_def)
  show "\<exists>row.
         find (\<lambda>r. id_rs r = sessionId) (researchSession s') = Some row
         \<and> status_rs row = COMPLETED
         \<and> (\<forall>r e. startDeepResearch env prompt = Inr r \<and> research env prompt = Inl e \<longrightarrow>
               openaiResult_rs row = Some (orElse (result r) [])
               \<and> geminiResult_rs row = Some ''Research failed'')
         \<and> (\<forall>e g. startDeepResearch env prompt = Inl e \<and> research env prompt = Inr g \<longrightarrow>
               openaiResult_rs row = Some ''Research failed''
               \<and> geminiResult_rs row = Some g)"
    using row(1,2) texts by blast
next
  let ?uid = "userId_rs session"
  let ?rolled = "rollover (now env) (loaded env ?uid (apiUsage s)) (loaded env ?uid (apiUsage s))"
  assume hyps: "faults s = []
      \<and> find (\<lambda>r. id_rs r = sessionId) (researchSession s) = Some session
      \<and> find (\<lambda>u. id_u u = userId_rs session) (user s) = Some owner
      \<and> canMakeOpenAIRequest env (userId_rs session) s = (Inr canMakeOpenAI, s1)
      \<and> allowed canMakeOpenAI
      \<and> canMakeGeminiRequest env (userId_rs session) s1 = (Inr canMakeGemini, s2)
      \<and> allowed canMakeGemini
      \<and> generatePDFBuffer env (title_rs session) (initialPrompt_rs session)
           (orUndefined (refinedPrompt_rs session))
           (orUndefined (Some (openaiText_of env prompt)))
           (orUndefined (Some (geminiText_of env prompt)))
           (createdAt_rs session) = Inr pdfBuffer"
  then have h: "faults s = []"
    and session: "find (\<lambda>r. id_rs r = sessionId) (researchSession s) = Some session"
    and owner: "find (\<lambda>u. id_u u = userId_rs session) (user s) = Some owner"
    and c1: "canMakeOpenAIRequest env ?uid s = (Inr canMakeOpenAI, s1)" "allowed canMakeOpenAI"
    and c2: "canMakeGeminiRequest env ?uid s1 = (Inr canMakeGemini, s2)" "allowed canMakeGemini"
    and pdf: "generatePDFBuffer env (title_rs session) (initialPrompt_rs session)
           (orUndefined (refinedPrompt_rs session))
           (orUndefined (Some (openaiText_of env prompt)))
           (orUndefined (Some (geminiText_of env prompt)))
           (createdAt_rs session) = Inr pdfBuffer"
    by blast+
  have s1: "s1 = s\<lparr>apiUsage := rolledTable env ?uid (apiUsage s)\<rparr>"
    and ok1: "allowed (openaiVerdict env ?uid (apiUsage s))"
    using c1 by (simp_all add: canMakeOpenAIRequest_verdict [OF h])
  have "faults s1 = []"
    by (simp add: s1 h)
  from canMakeGeminiRequest_verdict [OF this, of env ?uid]
  have ok2: "allowed (geminiVerdict env ?uid (rolledTable env ?uid (apiUsage s)))"
    using c2 by (simp add: s1)
  note run = wp_unit [OF runResearch_returns [OF h session owner ok1 ok2 pdf]]
  define s' where "s' = snd (runResearch env sessionId prompt s)"
  have returns: "runResearch env sessionId prompt s = (Inr (), s')"
    and table: "apiUsage s' = recorded env ?uid prompt (rolledTable env ?uid (apiUsage s))"
    using run by (simp_all add: s'_def)
  have "\<exists>usage. find (\<lambda>u. userId_au u = ?uid) (apiUsage s') = Some usage"
    by (cases "startDeepResearch env prompt"; cases "research env prompt")
       (simp_all add: table recorded_def find_rolledTable find_recordedOpenAI_rolled
          recordedGemini_def recordedOpenAI_def find_updateWhere)
  then obtain usage where u: "find (\<lambda>u. userId_au u = ?uid) (apiUsage s') = Some usage"
    by blast
  have o: "\<And>r e. startDeepResearch env prompt = Inr r \<Longrightarrow> research env prompt = Inl e \<Longrightarrow>
      usage = ?rolled\<lparr>openaiRequestsToday := openaiRequestsToday ?rolled + 1,
                        openaiRequestsMonth := openaiRequestsMonth ?rolled + 1\<rparr>"
    using u by (simp add: table recorded_def find_recordedOpenAI_rolled Let_def)
  have g: "\<And>e g. startDeepResearch env prompt = Inl e \<Longrightarrow> research env prompt = Inr g \<Longrightarrow>
      usage = ?rolled\<lparr>geminiRequestsToday := geminiRequestsToday ?rolled + 1,
                        geminiRequestsMonth := geminiRequestsMonth ?rolled + 1\<rparr>"
    using u by (simp add: table recorded_def find_recordedGemini_rolled Let_def)
  show "\<exists>s' usage.
         runResearch env sessionId prompt s = (Inr (), s')
         \<and> find (\<lambda>u. userId_au u = userId_rs session) (apiUsage s') = Some usage
         \<and> (let rolled = rollover (now env) (loaded env (userId_rs session) (apiUsage s))
                           (loaded env (userId_rs session) (apiUsage s))
            in (\<forall>r e. startDeepResearch env prompt = Inr r \<and> research env prompt = Inl e \<longrightarrow>
                  usage = rolled\<lparr>openaiRequestsToday := openaiRequestsToday rolled + 1,
                                   openaiRequestsMonth := openaiRequestsMonth rolled + 1\<rparr>)
             \<and> (\<forall>e g. startDeepResearch env prompt = Inl e \<and> research env prompt = Inr g \<longrightarrow>
                  usage = rolled\<lparr>geminiRequestsToday := geminiRequestsToday rolled + 1,
                                   geminiRequestsMonth := geminiRequestsMonth rolled + 1\<rparr>))"
    unfolding Let_def using returns u o g by blast
qed

text \<open>
  The witness of C4: the session of a user without recorded usage, first with Gemini
  failing, then with OpenAI failing. Both runs return, the session is \<open>COMPLETED\<close>
  and only the provider that answered has a recorded call.
\<close>

theorem runResearch_one_provider_fails_witness:
  "faults (db_sessions [session_row ''s1'' ''u'' REFINEMENTS_COMPLETE (Some ''P'')] []) = []
   \<and> fst (runResearch env_gemini_down ''s1'' ''P''
            (db_sessions [session_row ''s1'' ''u'' REFINEMENTS_COMPLETE (Some ''P'')] [])) = Inr ()
   \<and> map_option (\<lambda>r. (status_rs r, openaiResult_rs r, geminiResult_rs r))
       (find (\<lambda>r. id_rs r = ''s1'')
          (researchSession (snd (runResearch env_gemini_down ''s1'' ''P''
            (db_sessions [session_row ''s1'' ''u'' REFINEMENTS_COMPLETE (Some ''P'')] [])))))
       = Some (COMPLETED, Some ''OpenAI findings'', Some ''Research failed'')
   \<and> map_option (\<lambda>u. (openaiRequestsToday u, openaiRequestsMonth u,
                        geminiRequestsToday u, geminiRequestsMonth u))
       (find (\<lambda>u. userId_au u = ''u'')
          (apiUsage (snd (runResearch env_gemini_down ''s1'' ''P''
            (db_sessions [session_row ''s1'' ''u'' REFINEMENTS_COMPLETE (Some ''P'')] [])))))
       = Some (1, 1, 0, 0)
   \<and> fst (runResearch env_openai_down ''s1'' ''P''
            (db_sessions [session_row ''s1'' ''u'' REFINEMENTS_COMPLETE (Some ''P'')] [])) = Inr ()
   \<and> map_option (\<lambda>r. (status_rs r, openaiResult_rs r, geminiResult_rs r))
       (find (\<lambda>r. id_rs r = ''s1'')
          (researchSession (snd (runResearch env_openai_down ''s1'' ''P''
            (db_sessions [session_row ''s1'' ''u'' REFINEMENTS_COMPLETE (Some ''P'')] [])))))
       = Some (COMPLETED, Some ''Research failed'', Some ''Gemini findings'')
   \<and> map_option (\<lambda>u. (openaiRequestsToday u, openaiRequestsMonth u,
                        geminiRequestsToday u, geminiRequestsMonth u))
       (find (\<lambda>u. userId_au u = ''u'')
          (apiUsage (snd (runResearch env_openai_down ''s1'' ''P''
            (db_sessions [session_row ''s1'' ''u'' REFINEMENTS_COMPLETE (Some ''P'')] [])))))
       = Some (0, 0, 1, 1)"
proof -
  let ?session = "session_row ''s1'' ''u'' REFINEMENTS_COMPLETE (Some ''P'')"
  let ?owner = "\<lparr>id_u = ''u'', email_u = Some ''u@example.org''\<rparr>"
  let ?s = "db_sessions [?session] []"
  have h: "faults ?s = []" by (simp add: db_sessions_def)
  have one: "fst (runResearch env ''s1'' ''P'' ?s) = Inr ()
     \<and> map_option (\<lambda>r. (status_rs r, openaiResult_rs r, geminiResult_rs r))
         (find (\<lambda>r. id_rs r = ''s1'') (researchSession (snd (runResearch env ''s1'' ''P'' ?s))))
         = Some (COMPLETED, Some ot, Some gt)
     \<and> map_option (\<lambda>u. (openaiRequestsToday u, openaiRequestsMonth u,
                        geminiRequestsToday u, geminiRequestsMonth u))
         (find (\<lambda>u. userId_au u = ''u'') (apiUsage (snd (runResearch env ''s1'' ''P'' ?s))))
         = Some counts"
    if cases: "env = env_gemini_down \<and> ot = ''OpenAI findings'' \<and> gt = ''Research failed''
                 \<and> counts = (1, 1, 0, 0)
               \<or> env = env_openai_down \<and> ot = ''Research failed'' \<and> gt = ''Gemini findings''
                 \<and> counts = (0, 0, 1, 1)"
    for env ot gt counts
  proof -
    let ?s1 = "?s\<lparr>apiUsage := rolledTable env ''u'' (apiUsage ?s)\<rparr>"
    let ?s2 = "?s1\<lparr>apiUsage := rolledTable env ''u'' (apiUsage ?s1)\<rparr>"
    note claim = runResearch_one_provider_fails [of env "''s1''" "''P''" ?s ?session ?owner
        "openaiVerdict env ''u'' (apiUsage ?s)" ?s1
        "geminiVerdict env ''u'' (apiUsage ?s1)" ?s2 "''%PDF''"]
    have u: "userId_rs ?session = ''u''" by (simp add: session_row_def)
    have h1: "faults ?s1 = []" by (simp add: db_sessions_def)
    have hyps: "faults ?s = []
      \<and> find (\<lambda>r. id_rs r = ''s1'') (researchSession ?s) = Some ?session
      \<and> find (\<lambda>u. id_u u = userId_rs ?session) (user ?s) = Some ?owner
      \<and> canMakeOpenAIRequest env (userId_rs ?session) ?s
          = (Inr (openaiVerdict env ''u'' (apiUsage ?s)), ?s1)
      \<and> allowed (openaiVerdict env ''u'' (apiUsage ?s))
      \<and> canMakeGeminiRequest env (userId_rs ?session) ?s1
          = (Inr (geminiVerdict env ''u'' (apiUsage ?s1)), ?s2)
      \<and> allowed (geminiVerdict env ''u'' (apiUsage ?s1))
      \<and> generatePDFBuffer env (title_rs ?session) (initialPrompt_rs ?session)
           (orUndefined (refinedPrompt_rs ?session))
           (orUndefined (Some (openaiText_of env ''P'')))
           (orUndefined (Some (geminiText_of env ''P'')))
           (createdAt_rs ?session) = Inr ''%PDF''"
      unfolding u canMakeOpenAIRequest_verdict [OF h] canMakeGeminiRequest_verdict [OF h1]
      using cases
      by (elim disjE conjE; simp add: example_defs eval_defs env_gemini_down_def env_openai_down_def
            openaiText_of_def geminiText_of_def)
    from mp [OF conjunct2 [OF claim] hyps]
    obtain s' usage where run: "runResearch env ''s1'' ''P'' ?s = (Inr (), s')"
      and usage: "find (\<lambda>u. userId_au u = userId_rs ?session) (apiUsage s') = Some usage"
      and counts: "let rolled = rollover (now env) (loaded env (userId_rs ?session) (apiUsage ?s))
                           (loaded env (userId_rs ?session) (apiUsage ?s))
            in (\<forall>r e. startDeepResearch env ''P'' = Inr r \<and> research env ''P'' = Inl e \<longrightarrow>
                  usage = rolled\<lparr>openaiRequestsToday := openaiRequestsToday rolled + 1,
                                   openaiRequestsMonth := openaiRequestsMonth rolled + 1\<rparr>)
             \<and> (\<forall>e g. startDeepResearch env ''P'' = Inl e \<and> research env ''P'' = Inr g \<longrightarrow>
                  usage = rolled\<lparr>geminiRequestsToday := geminiRequestsToday rolled + 1,
                                   geminiRequestsMonth := geminiRequestsMonth rolled + 1\<rparr>)"
      by blast
    from mp [OF spec [OF conjunct1 [OF claim]] run]
    obtain row where row: "find (\<lambda>r. id_rs r = ''s1'') (researchSession s') = Some row"
      "status_rs row = COMPLETED"
      "\<forall>r e. startDeepResearch env ''P'' = Inr r \<and> research env ''P'' = Inl e \<longrightarrow>
               openaiResult_rs row = Some (orElse (result r) [])
               \<and> geminiResult_rs row = Some ''Research failed''"
      "\<forall>e g. startDeepResearch env ''P'' = Inl e \<and> research env ''P'' = Inr g \<longrightarrow>
               openaiResult_rs row = Some ''Research failed''
               \<and> geminiResult_rs row = Some g"
      by blast
    have results: "openaiResult_rs row = Some ot \<and> geminiResult_rs row = Some gt"
      using cases row(3,4)
      by (elim disjE conjE; simp add: env_gemini_down_def env_openai_down_def orElse_def)
    have "(openaiRequestsToday usage, openaiRequestsMonth usage,
           geminiRequestsToday usage, geminiRequestsMonth usage) = counts"
      using cases counts
      by (elim disjE conjE; simp add: example_defs eval_defs env_gemini_down_def env_openai_down_def)
    then show ?thesis
      using run row(1,2) results usage by (simp add: u)
  qed
  show ?thesis
    using h one [of env_gemini_down "''OpenAI findings''" "''Research failed''" "(1, 1, 0, 0)"]
      one [of env_openai_down "''Research failed''" "''Gemini findings''" "(0, 0, 1, 1)"]
    by simp
qed

end
